(* ===== verification/Prelude.thy ===== *)
theory Prelude
  imports Main
begin

text \<open>
  Shared vocabulary of the development. JavaScript values and plain objects (the rows the
  \<open>pg\<close> client returns, request bodies, patches), the two JavaScript defaulting operators
  \<open>||\<close> and \<open>??\<close>, \<open>rows[0]\<close> on a possibly empty array, and the error monad: a
  thrown exception or a rejected promise is an \<open>Inl\<close> of a sum, a normal return an
  \<open>Inr\<close>. Template literals \<open>${v}\<close> (\<open>String(v)\<close>, with the decimal digits of a
  number and their value). The collections \<open>js_simps\<close> and \<open>sql_simps\<close> gather the evaluation
  lemmas the component theories add, so that a component proof is \<open>simp add: js_simps\<close>.
\<close>

named_theorems js_simps "evaluation lemmas for the JavaScript value model"
named_theorems sql_simps "evaluation lemmas for the SQL table model"

section \<open>JavaScript values and plain objects\<close>

text \<open>
  Numbers are modelled as integers (the ids and counters of the program; NaN and
  fractions do not arise). An object is a finite map from property names to values; an
  absent property reads as \<open>undefined\<close>.
\<close>

datatype jsval = JUndefined | JNull | JBool bool | JNum int | JStr string

type_synonym jsobj = "string \<rightharpoonup> jsval"

definition js_get :: "jsobj \<Rightarrow> string \<Rightarrow> jsval" where
  "js_get obj k = (case obj k of None \<Rightarrow> JUndefined | Some v \<Rightarrow> v)"

fun js_truthy :: "jsval \<Rightarrow> bool" where
  "js_truthy JUndefined = False"
| "js_truthy JNull = False"
| "js_truthy (JBool b) = b"
| "js_truthy (JNum n) = (n \<noteq> 0)"
| "js_truthy (JStr s) = (s \<noteq> [])"

text \<open>\<open>a || b\<close>: the left operand when it is truthy, otherwise the right one.\<close>

definition js_or :: "jsval \<Rightarrow> jsval \<Rightarrow> jsval" where
  "js_or a b = (if js_truthy a then a else b)"

text \<open>\<open>a ?? b\<close>: the left operand unless it is \<open>undefined\<close> or \<open>null\<close>.\<close>

definition js_nullish :: "jsval \<Rightarrow> jsval \<Rightarrow> jsval" where
  "js_nullish a b = (if a = JUndefined \<or> a = JNull then b else a)"

text \<open>\<open>xs[0]\<close> of a JavaScript array: \<open>undefined\<close> (here \<open>None\<close>) on an empty array.\<close>

definition js_first :: "'a list \<Rightarrow> 'a option" where
  "js_first xs = (case xs of [] \<Rightarrow> None | x # _ \<Rightarrow> Some x)"

text \<open>
  What a mapper method returns when it may find nothing: \<open>null\<close> (an explicit
  \<open>return null\<close>), \<open>undefined\<close> (\<open>rows[0]\<close> of an empty array) or an object. Both
  \<open>null\<close> and \<open>undefined\<close> are falsy, an object is truthy: \<open>js_present\<close> is the test
  \<open>if (!x)\<close> of the caller.
\<close>

datatype 'a js_result = JsNull | JsUndef | JsObj 'a

definition js_index0 :: "'a list \<Rightarrow> 'a js_result" where
  "js_index0 xs = (case xs of [] \<Rightarrow> JsUndef | x # _ \<Rightarrow> JsObj x)"

fun js_present :: "'a js_result \<Rightarrow> 'a option" where
  "js_present (JsObj x) = Some x"
| "js_present JsNull = None"
| "js_present JsUndef = None"

section \<open>Errors as values\<close>

text \<open>
  Sequencing of code that may throw: the first exception is propagated, as
  \<open>await\<close> propagates a rejected promise.
\<close>

definition sbind :: "'e + 'a \<Rightarrow> ('a \<Rightarrow> 'e + 'b) \<Rightarrow> 'e + 'b" where
  "sbind m f = (case m of Inl e \<Rightarrow> Inl e | Inr a \<Rightarrow> f a)"

section \<open>Template literals\<close>

text \<open>\<open>String(n)\<close> of an integer: its decimal digits, a minus sign before a negative one.\<close>

fun decimal_nat :: "nat \<Rightarrow> string" where
  "decimal_nat n =
     (if n < 10 then [char_of (48 + n)] else decimal_nat (n div 10) @ [char_of (48 + n mod 10)])"

definition decimal_int :: "int \<Rightarrow> string" where
  "decimal_int i = (if i < 0 then ''-'' @ decimal_nat (nat (- i)) else decimal_nat (nat i))"

text \<open>\<open>${v}\<close> in a template literal: JavaScript's \<open>String(v)\<close>.\<close>

fun js_template :: "jsval \<Rightarrow> string" where
  "js_template JUndefined = ''undefined''"
| "js_template JNull = ''null''"
| "js_template (JBool b) = (if b then ''true'' else ''false'')"
| "js_template (JNum n) = decimal_int n"
| "js_template (JStr s) = s"

section \<open>Shared lemmas\<close>

lemma js_get_Some [simp, js_simps]: "obj k = Some v \<Longrightarrow> js_get obj k = v"
  by (simp add: js_get_def)

lemma js_get_None [simp, js_simps]: "obj k = None \<Longrightarrow> js_get obj k = JUndefined"
  by (simp add: js_get_def)

lemma js_get_upd [simp, js_simps]:
  "js_get (obj(k \<mapsto> v)) k' = (if k' = k then v else js_get obj k')"
  by (simp add: js_get_def)

lemma js_get_map_add [js_simps]:
  "js_get (obj ++ p) k = (case p k of None \<Rightarrow> js_get obj k | Some v \<Rightarrow> v)"
  by (simp add: js_get_def map_add_def split: option.splits)

lemma js_first_simps [simp, js_simps]:
  "js_first [] = None" "js_first (x # xs) = Some x"
  by (simp_all add: js_first_def)

lemma js_index0_simps [simp, js_simps]:
  "js_index0 [] = JsUndef" "js_index0 (x # xs) = JsObj x"
  by (simp_all add: js_index0_def)

lemma js_first_None_iff [simp]: "js_first xs = None \<longleftrightarrow> xs = []"
  by (simp add: js_first_def split: list.splits)

lemma js_first_map: "js_first (map f xs) = map_option f (js_first xs)"
  by (simp add: js_first_def split: list.splits)

lemma js_first_Some_in: "js_first xs = Some x \<Longrightarrow> x \<in> set xs"
  by (simp add: js_first_def split: list.splits)

lemma sbind_simps [simp]:
  "sbind (Inl e) f = Inl e" "sbind (Inr a) f = f a"
  by (simp_all add: sbind_def)

lemma sbind_eq_Inr:
  "sbind m f = Inr b \<longleftrightarrow> (\<exists>a. m = Inr a \<and> f a = Inr b)"
  by (cases m) simp_all

lemma sbind_eq_Inl:
  "sbind m f = Inl e \<longleftrightarrow> m = Inl e \<or> (\<exists>a. m = Inr a \<and> f a = Inl e)"
  by (cases m) simp_all

lemma js_nullish_simps [simp, js_simps]:
  "js_nullish JUndefined b = b" "js_nullish JNull b = b" "js_nullish (JStr s) b = JStr s"
  "js_nullish (JNum n) b = JNum n" "js_nullish (JBool x) b = JBool x"
  by (simp_all add: js_nullish_def)

lemma js_or_simps [simp, js_simps]:
  "js_or JUndefined b = b" "js_or JNull b = b"
  "js_or (JStr s) b = (if s = [] then b else JStr s)"
  "js_or (JNum n) b = (if n = 0 then b else JNum n)"
  by (simp_all add: js_or_def)

text \<open>A conditional update of a list that hits no element leaves it unchanged.\<close>

lemma map_if_none_hit:
  "\<forall>x \<in> set xs. \<not> P x \<Longrightarrow> map (\<lambda>x. if P x then f x else x) xs = xs"
  by (induction xs) simp_all

lemma ball_set_map: "(\<forall>x \<in> set (map f xs). P x) \<longleftrightarrow> (\<forall>x \<in> set xs. P (f x))"
  by simp

lemma filter_empty_no_hit: "filter P xs = [] \<longleftrightarrow> (\<forall>x \<in> set xs. \<not> P x)"
  by (simp add: filter_empty_conv)

text \<open>\<open>String(n)\<close> of a natural number: one step of its recursion, its digits, and their value.\<close>

lemma decimal_nat_small: "n < 10 \<Longrightarrow> decimal_nat n = [char_of (48 + n)]"
  by (subst decimal_nat.simps) simp

lemma decimal_nat_big: "\<not> n < 10 \<Longrightarrow> decimal_nat n = decimal_nat (n div 10) @ [char_of (48 + n mod 10)]"
  by (subst decimal_nat.simps) simp

lemma digit_char: "(k :: nat) < 10 \<Longrightarrow> char_of (48 + k) \<in> set ''0123456789''"
proof -
  assume "k < 10"
  then have "k \<in> {..<10}" by simp
  then have "48 + k \<in> of_char ` set ''0123456789''"
    by (simp add: lessThan_nat_numeral pred_numeral_simps) (elim disjE; simp)
  then obtain c where "48 + k = of_char c" and "c \<in> set ''0123456789''" by (rule imageE)
  then show ?thesis by (metis char_of_char)
qed

lemma digit_value: "(k :: nat) < 10 \<Longrightarrow> int (of_char (char_of (48 + k) :: char)) - 48 = int k"
  by (simp add: of_char_of)

lemma decimal_nat_digits: "decimal_nat n \<noteq> [] \<and> set (decimal_nat n) \<subseteq> set ''0123456789''"
proof (induction n rule: decimal_nat.induct)
  case (1 n)
  then show ?case
    using digit_char [of n] digit_char [of "n mod 10"]
    by (cases "n < 10") (simp_all add: decimal_nat_small decimal_nat_big del: decimal_nat.simps)
qed

lemma decimal_nat_value:
  "foldl (\<lambda>acc c. 10 * acc + (int (of_char c) - 48)) 0 (decimal_nat n) = int n"
proof (induction n rule: decimal_nat.induct)
  case (1 n)
  show ?case
  proof (cases "n < 10")
    case True
    then show ?thesis by (simp add: decimal_nat_small digit_value del: decimal_nat.simps)
  next
    case False
    with "1.IH" have "foldl (\<lambda>acc c. 10 * acc + (int (of_char c) - 48)) 0 (decimal_nat (n div 10)) = int (n div 10)"
      by (simp del: decimal_nat.simps)
    moreover have "int n = 10 * int (n div 10) + int (n mod 10)"
      by (metis div_mult_mod_eq mult.commute of_nat_add of_nat_mult of_nat_numeral)
    ultimately show ?thesis using False by (simp add: decimal_nat_big digit_value del: decimal_nat.simps)
  qed
qed

text \<open>A digit character from its code.\<close>

lemma char_of_digit:
  "48 \<le> n \<Longrightarrow> n < 58 \<Longrightarrow> (char_of n :: char) = ''0123456789'' ! (n - 48)"
proof -
  assume "48 \<le> n" "n < 58"
  then have "n - 48 \<in> {..<10}" by simp
  then have "(of_char (char_of n :: char) :: nat) = of_char (''0123456789'' ! (n - 48))"
    using \<open>48 \<le> n\<close> \<open>n < 58\<close>
    by (simp add: of_char_of lessThan_nat_numeral pred_numeral_simps) (elim disjE; simp)
  then show ?thesis by (metis char_of_char)
qed

end
