(* ===== verification/Sql.thy ===== *)
theory Sql
  imports Prelude
begin

text \<open>
  The storage the mappers query through \<open>client.query\<close> (\<open>helpers/database\<close>, a
  \<open>pg\<close> client). A database maps table names to tables; a table has its column list and
  its rows in storage order; a row is the plain object \<open>pg\<close> returns, one property per
  column, SQL \<open>NULL\<close> read as \<open>null\<close>. Only the statement shapes the source sends are
  modelled: \<open>SELECT * \<dots> WHERE c = $1\<close>, \<open>UPDATE \<dots> SET \<dots> WHERE c = $n RETURNING *\<close>,
  and, for the spec-modelled mappers, \<open>INSERT\<close> and \<open>DELETE \<dots> WHERE\<close>. A reference to a
  table or column that does not exist is the error PostgreSQL raises, which rejects the
  promise of \<open>client.query\<close>.
\<close>

type_synonym row = jsobj

record table =
  tcols :: "string list"
  trows :: "row list"

type_synonym db = "string \<rightharpoonup> table"

datatype sql_error = UndefinedTable string | UndefinedColumn string

text \<open>The value of a column in a row; a missing property is stored \<open>NULL\<close>.\<close>

definition cell :: "row \<Rightarrow> string \<Rightarrow> jsval" where
  "cell r c = (case r c of None \<Rightarrow> JNull | Some v \<Rightarrow> v)"

text \<open>
  \<open>pg\<close> sends a JavaScript \<open>undefined\<close> or \<open>null\<close> parameter as SQL \<open>NULL\<close>.
\<close>

definition sql_param :: "jsval \<Rightarrow> jsval" where
  "sql_param v = (if v = JUndefined then JNull else v)"

text \<open>\<open>c = $n\<close> in a \<open>WHERE\<close> clause: \<open>NULL\<close> on either side is never equal.\<close>

definition sql_eq :: "jsval \<Rightarrow> jsval \<Rightarrow> bool" where
  "sql_eq a b = (a \<noteq> JNull \<and> b \<noteq> JNull \<and> a = b)"

definition table_of :: "db \<Rightarrow> string \<Rightarrow> sql_error + table" where
  "table_of d t = (case d t of None \<Rightarrow> Inl (UndefinedTable t) | Some tb \<Rightarrow> Inr tb)"

definition check_cols :: "table \<Rightarrow> string list \<Rightarrow> sql_error + unit" where
  "check_cols tb cs =
     (case filter (\<lambda>c. c \<notin> set (tcols tb)) cs of [] \<Rightarrow> Inr () | c # _ \<Rightarrow> Inl (UndefinedColumn c))"

definition hits :: "string \<Rightarrow> jsval \<Rightarrow> row \<Rightarrow> bool" where
  "hits col v r = sql_eq (cell r col) (sql_param v)"

text \<open>\<open>SELECT * FROM t WHERE col = $1\<close> with parameter \<open>v\<close>: \<open>result.rows\<close>.\<close>

definition select_where :: "db \<Rightarrow> string \<Rightarrow> string \<Rightarrow> jsval \<Rightarrow> sql_error + row list" where
  "select_where d t col v =
     sbind (table_of d t) (\<lambda>tb. sbind (check_cols tb [col]) (\<lambda>_.
       Inr (filter (hits col v) (trows tb))))"

text \<open>\<open>SET c1 = $1, \<dots>\<close> applied to one row.\<close>

definition set_cols :: "(string \<times> jsval) list \<Rightarrow> row \<Rightarrow> row" where
  "set_cols sets r = fold (\<lambda>(c, v) r. r(c \<mapsto> sql_param v)) sets r"

text \<open>
  \<open>UPDATE t SET \<dots> WHERE col = $n RETURNING *\<close>: the new database and
  \<open>result.rows\<close>, the updated rows.
\<close>

definition update_where ::
  "db \<Rightarrow> string \<Rightarrow> (string \<times> jsval) list \<Rightarrow> string \<Rightarrow> jsval \<Rightarrow> sql_error + (db \<times> row list)" where
  "update_where d t sets col v =
     sbind (table_of d t) (\<lambda>tb. sbind (check_cols tb (map fst sets @ [col])) (\<lambda>_.
       Inr (d(t \<mapsto> tb\<lparr>trows := map (\<lambda>r. if hits col v r then set_cols sets r else r) (trows tb)\<rparr>),
            map (set_cols sets) (filter (hits col v) (trows tb)))))"

text \<open>\<open>SELECT * FROM t\<close>: every row in storage order.\<close>

definition select_all :: "db \<Rightarrow> string \<Rightarrow> sql_error + row list" where
  "select_all d t = sbind (table_of d t) (\<lambda>tb. Inr (trows tb))"

text \<open>\<open>DELETE FROM t WHERE col = $1 RETURNING *\<close>: the new database and the deleted rows.\<close>

definition delete_where :: "db \<Rightarrow> string \<Rightarrow> string \<Rightarrow> jsval \<Rightarrow> sql_error + (db \<times> row list)" where
  "delete_where d t col v =
     sbind (table_of d t) (\<lambda>tb. sbind (check_cols tb [col]) (\<lambda>_.
       Inr (d(t \<mapsto> tb\<lparr>trows := filter (\<lambda>r. \<not> hits col v r) (trows tb)\<rparr>),
            filter (hits col v) (trows tb))))"

text \<open>
  \<open>INSERT INTO t (\<dots>) VALUES (\<dots>) RETURNING *\<close>: the row takes the given columns,
  \<open>NULL\<close> elsewhere; a column outside the table is an error.
\<close>

definition insert_row :: "db \<Rightarrow> string \<Rightarrow> (string \<times> jsval) list \<Rightarrow> sql_error + (db \<times> row)" where
  "insert_row d t vals =
     sbind (table_of d t) (\<lambda>tb. sbind (check_cols tb (map fst vals)) (\<lambda>_.
       let r = set_cols vals (map_of (map (\<lambda>c. (c, JNull)) (tcols tb)))
       in Inr (d(t \<mapsto> tb\<lparr>trows := trows tb @ [r]\<rparr>), r)))"

section \<open>Well-formed tables\<close>

text \<open>
  Every row of a table has exactly the table's columns and holds SQL values only (no
  \<open>undefined\<close>), and a key column holds no value twice (\<open>UNIQUE\<close>; \<open>NULL\<close>s
  excepted, as in SQL).
\<close>

definition wf_table :: "table \<Rightarrow> bool" where
  "wf_table tb = (\<forall>r \<in> set (trows tb). dom r = set (tcols tb) \<and> (\<forall>c. r c \<noteq> Some JUndefined))"

definition unique_col :: "string \<Rightarrow> table \<Rightarrow> bool" where
  "unique_col col tb = distinct (filter (\<lambda>v. v \<noteq> JNull) (map (\<lambda>r. cell r col) (trows tb)))"

section \<open>The keyed view of a table\<close>

text \<open>
  The abstract store a keyed query sees: the rows of a table by the value of a key column,
  the first row for each value, rows whose key is \<open>NULL\<close> invisible (no \<open>WHERE c = $1\<close>
  selects them). The list of rows a statement returns for at most one match is
  \<open>as_rows\<close>.
\<close>

definition key_map :: "string \<Rightarrow> row list \<Rightarrow> jsval \<rightharpoonup> row" where
  "key_map col rows = map_of (map (\<lambda>r. (cell r col, r)) (filter (\<lambda>r. cell r col \<noteq> JNull) rows))"

definition as_rows :: "row option \<Rightarrow> row list" where
  "as_rows ro = (case ro of None \<Rightarrow> [] | Some r \<Rightarrow> [r])"

section \<open>Evaluation lemmas\<close>

lemma table_of_simps [simp, sql_simps]:
  "d t = None \<Longrightarrow> table_of d t = Inl (UndefinedTable t)"
  "d t = Some tb \<Longrightarrow> table_of d t = Inr tb"
  by (simp_all add: table_of_def)

lemma check_cols_Inr [sql_simps]: "set cs \<subseteq> set (tcols tb) \<Longrightarrow> check_cols tb cs = Inr ()"
  by (simp add: check_cols_def filter_empty_conv subset_iff)

lemma check_cols_single [simp, sql_simps]:
  "check_cols tb [c] = (if c \<in> set (tcols tb) then Inr () else Inl (UndefinedColumn c))"
  by (simp add: check_cols_def)

lemma check_cols_Inr_iff: "check_cols tb cs = Inr u \<longleftrightarrow> set cs \<subseteq> set (tcols tb)"
proof (cases "filter (\<lambda>c. c \<notin> set (tcols tb)) cs")
  case Nil
  then show ?thesis by (auto simp: check_cols_def filter_empty_conv)
next
  case (Cons c rest)
  then have "c \<in> set (filter (\<lambda>c. c \<notin> set (tcols tb)) cs)" by simp
  then have "c \<in> set cs" "c \<notin> set (tcols tb)" by simp_all
  with Cons show ?thesis by (auto simp: check_cols_def)
qed

lemma sql_param_simps [simp, sql_simps]:
  "sql_param JUndefined = JNull" "sql_param JNull = JNull" "sql_param (JNum n) = JNum n"
  "sql_param (JStr s) = JStr s" "sql_param (JBool b) = JBool b"
  by (simp_all add: sql_param_def)

lemma sql_eq_null [simp, sql_simps]: "\<not> sql_eq a JNull" "\<not> sql_eq JNull a"
  by (simp_all add: sql_eq_def)

text \<open>A \<open>WHERE\<close> clause against an \<open>undefined\<close> parameter selects nothing.\<close>

lemma hits_undefined [simp, sql_simps]: "\<not> hits col JUndefined r"
  by (simp add: hits_def)

lemma hits_iff: "hits col v r \<longleftrightarrow> v \<noteq> JUndefined \<and> v \<noteq> JNull \<and> cell r col = v"
  by (auto simp: hits_def sql_eq_def sql_param_def)

lemma select_where_ok [sql_simps]:
  "d t = Some tb \<Longrightarrow> col \<in> set (tcols tb) \<Longrightarrow>
   select_where d t col v = Inr (filter (hits col v) (trows tb))"
  by (simp add: select_where_def)

lemma select_where_no_col [sql_simps]:
  "d t = Some tb \<Longrightarrow> col \<notin> set (tcols tb) \<Longrightarrow>
   select_where d t col v = Inl (UndefinedColumn col)"
  by (simp add: select_where_def)

lemma update_where_ok [sql_simps]:
  "d t = Some tb \<Longrightarrow> set (map fst sets) \<subseteq> set (tcols tb) \<Longrightarrow> col \<in> set (tcols tb) \<Longrightarrow>
   update_where d t sets col v =
     Inr (d(t \<mapsto> tb\<lparr>trows := map (\<lambda>r. if hits col v r then set_cols sets r else r) (trows tb)\<rparr>),
          map (set_cols sets) (filter (hits col v) (trows tb)))"
  by (simp add: update_where_def check_cols_Inr)

lemma dom_set_cols [simp]: "dom (set_cols sets r) = dom r \<union> set (map fst sets)"
  by (induction sets arbitrary: r) (auto simp: set_cols_def)

lemma set_cols_other [simp]: "c \<notin> set (map fst sets) \<Longrightarrow> set_cols sets r c = r c"
  by (induction sets arbitrary: r) (auto simp: set_cols_def)

lemma sql_param_not_undefined [simp]: "sql_param v \<noteq> JUndefined"
  by (simp add: sql_param_def)

lemma set_cols_no_undefined:
  "\<forall>c. r c \<noteq> Some JUndefined \<Longrightarrow> set_cols sets r c \<noteq> Some JUndefined"
  by (induction sets arbitrary: r) (auto simp: set_cols_def)

lemma sql_param_js_get: "r c \<noteq> Some JUndefined \<Longrightarrow> sql_param (js_get r c) = cell r c"
  by (cases "r c") (simp_all add: cell_def sql_param_def js_get_def)

lemma cell_set_cols_other [simp]: "c \<notin> set (map fst sets) \<Longrightarrow> cell (set_cols sets r) c = cell r c"
  by (simp add: cell_def)

text \<open>
  An \<open>UPDATE\<close> that sets only columns of the table keeps it well formed, and one that
  does not set a unique column keeps that column unique.
\<close>

lemma wf_table_update:
  assumes "wf_table tb" and "set (map fst sets) \<subseteq> set (tcols tb)"
  shows "wf_table (tb\<lparr>trows := map (\<lambda>r. if P r then set_cols sets r else r) (trows tb)\<rparr>)"
  unfolding wf_table_def
proof
  fix r' assume "r' \<in> set (trows (tb\<lparr>trows := map (\<lambda>r. if P r then set_cols sets r else r) (trows tb)\<rparr>))"
  then obtain r where "r \<in> set (trows tb)" and "r' = (if P r then set_cols sets r else r)" by auto
  with assms show "dom r' = set (tcols (tb\<lparr>trows := map (\<lambda>r. if P r then set_cols sets r else r) (trows tb)\<rparr>))
      \<and> (\<forall>c. r' c \<noteq> Some JUndefined)"
    by (simp add: wf_table_def sup.absorb1 set_cols_no_undefined)
qed
lemma unique_col_update:
  assumes "unique_col col tb" and "col \<notin> set (map fst sets)"
  shows "unique_col col (tb\<lparr>trows := map (\<lambda>r. if P r then set_cols sets r else r) (trows tb)\<rparr>)"
proof -
  have eq: "map (\<lambda>r. cell r col) (trows (tb\<lparr>trows := map (\<lambda>r. if P r then set_cols sets r else r) (trows tb)\<rparr>))
        = map (\<lambda>r. cell r col) (trows tb)"
    using assms(2) by (simp add: comp_def)
  from assms(1) show ?thesis unfolding unique_col_def by (simp only: eq)
qed

text \<open>Under a unique key, the rows a \<open>WHERE key = v\<close> selects are at most the one row holding \<open>v\<close>.\<close>

lemma unique_col_filter:
  assumes "unique_col col tb" and "r \<in> set (trows tb)" and "hits col v r"
  shows "filter (hits col v) (trows tb) = [r]"
proof -
  have "distinct (filter (\<lambda>v. v \<noteq> JNull) (map (\<lambda>r. cell r col) rs)) \<Longrightarrow> r \<in> set rs \<Longrightarrow>
        filter (hits col v) rs = [r]" for rs
  proof (induction rs)
    case Nil
    then show ?case by simp
  next
    case (Cons x xs)
    show ?case
    proof (cases "hits col v x")
      case True
      with Cons.prems(1) have "\<forall>y \<in> set xs. \<not> hits col v y"
        by (fastforce simp: hits_iff image_iff)
      moreover from this Cons.prems(2) \<open>hits col v r\<close> have "r = x" by auto
      ultimately show ?thesis using True by (simp add: filter_empty_conv)
    next
      case False
      with Cons.prems \<open>hits col v r\<close> have "r \<in> set xs" by auto
      moreover from Cons.prems(1) have "distinct (filter (\<lambda>v. v \<noteq> JNull) (map (\<lambda>r. cell r col) xs))"
        by (simp split: if_splits)
      ultimately show ?thesis using Cons.IH False by simp
    qed
  qed
  with assms show ?thesis by (simp add: unique_col_def)
qed

lemma update_where_Inr:
  assumes "update_where d t sets col v = Inr (d', rs)"
  obtains tb where "d t = Some tb" and "set (map fst sets) \<subseteq> set (tcols tb)"
    and "col \<in> set (tcols tb)"
    and "d' = d(t \<mapsto> tb\<lparr>trows := map (\<lambda>r. if hits col v r then set_cols sets r else r) (trows tb)\<rparr>)"
    and "rs = map (set_cols sets) (filter (hits col v) (trows tb))"
proof -
  from assms obtain tb where tb: "d t = Some tb"
    by (cases "d t") (simp_all add: update_where_def)
  have ok: "check_cols tb (map fst sets @ [col]) = Inr ()"
  proof (cases "check_cols tb (map fst sets @ [col])")
    case (Inl e)
    with assms tb show ?thesis by (simp add: update_where_def)
  qed simp
  then have cols: "set (map fst sets) \<subseteq> set (tcols tb)" "col \<in> set (tcols tb)"
    by (simp_all add: check_cols_Inr_iff)
  with assms tb have "d' = d(t \<mapsto> tb\<lparr>trows := map (\<lambda>r. if hits col v r then set_cols sets r else r) (trows tb)\<rparr>)"
      and "rs = map (set_cols sets) (filter (hits col v) (trows tb))"
    by (simp_all add: update_where_ok)
  with tb cols that show ?thesis by blast
qed

text \<open>
  The table invariant is kept by every \<open>UPDATE\<close> that does not write the key column;
  other tables are untouched.
\<close>

lemma update_where_invariant:
  assumes "update_where d t sets col v = Inr (d', rs)" and "d t = Some tb"
    and "wf_table tb" and "unique_col key tb" and "key \<notin> set (map fst sets)"
  shows "\<exists>tb'. d' t = Some tb' \<and> tcols tb' = tcols tb \<and> wf_table tb' \<and> unique_col key tb'
           \<and> (\<forall>t'. t' \<noteq> t \<longrightarrow> d' t' = d t')"
proof -
  from assms(1) obtain tb0 where "d t = Some tb0" and "set (map fst sets) \<subseteq> set (tcols tb0)"
    and "d' = d(t \<mapsto> tb0\<lparr>trows := map (\<lambda>r. if hits col v r then set_cols sets r else r) (trows tb0)\<rparr>)"
    by (rule update_where_Inr)
  with assms(2-5) show ?thesis
    by (simp add: wf_table_update unique_col_update)
qed

lemma insert_row_ok:
  "d t = Some tb \<Longrightarrow> set (map fst vals) \<subseteq> set (tcols tb) \<Longrightarrow>
   insert_row d t vals = Inr (d(t \<mapsto> tb\<lparr>trows := trows tb @ [set_cols vals (map_of (map (\<lambda>c. (c, JNull)) (tcols tb)))]\<rparr>),
                              set_cols vals (map_of (map (\<lambda>c. (c, JNull)) (tcols tb))))"
  by (simp add: insert_row_def check_cols_Inr Let_def)

lemma set_cols_last: "distinct (map fst vals) \<Longrightarrow> (c, v) \<in> set vals \<Longrightarrow> set_cols vals r c = Some (sql_param v)"
proof (induction vals arbitrary: r)
  case Nil then show ?case by simp
next
  case (Cons a vals)
  obtain c' v' where a: "a = (c', v')" by force
  show ?case
  proof (cases "c' = c")
    case True
    with Cons.prems a have "c \<notin> set (map fst vals)" "v' = v" by (auto simp: rev_image_eqI)
    with True a show ?thesis by (simp add: set_cols_def set_cols_other [unfolded set_cols_def])
  next
    case False
    with Cons.prems a have "(c, v) \<in> set vals" "distinct (map fst vals)" by auto
    with Cons.IH a show ?thesis by (simp add: set_cols_def)
  qed
qed

lemma unique_col_snoc:
  "unique_col col tb \<Longrightarrow> (\<forall>r \<in> set (trows tb). \<not> hits col v r) \<Longrightarrow> cell r col = sql_param v \<Longrightarrow>
   unique_col col (tb\<lparr>trows := trows tb @ [r]\<rparr>)"
  by (auto simp: unique_col_def hits_iff sql_param_def split: if_splits)

text \<open>An \<open>INSERT\<close> that succeeded, and the well-formedness of the table it extends.\<close>

lemma insert_row_Inr:
  "insert_row d t vals = Inr (d', r) \<Longrightarrow>
   \<exists>tb. d t = Some tb \<and> set (map fst vals) \<subseteq> set (tcols tb) \<and>
        r = set_cols vals (map_of (map (\<lambda>c. (c, JNull)) (tcols tb))) \<and> d' = d(t \<mapsto> tb\<lparr>trows := trows tb @ [r]\<rparr>)"
  by (auto simp: insert_row_def table_of_def sbind_eq_Inr check_cols_Inr_iff Let_def split: option.splits)

lemma wf_table_insert:
  assumes "wf_table tb" and "set (map fst vals) \<subseteq> set (tcols tb)"
  shows "wf_table (tb\<lparr>trows := trows tb @ [set_cols vals (map_of (map (\<lambda>c. (c, JNull)) (tcols tb)))]\<rparr>)"
proof -
  let ?r0 = "map_of (map (\<lambda>c. (c, JNull)) (tcols tb))"
  have "dom ?r0 = set (tcols tb)" by (simp add: dom_map_of_conv_image_fst image_image)
  moreover have "\<forall>c. ?r0 c \<noteq> Some JUndefined" by (auto dest: map_of_SomeD)
  ultimately show ?thesis using assms
    by (auto simp: wf_table_def set_cols_no_undefined)
qed

section \<open>Refinement of the keyed statements\<close>

lemma hits_param: "hits col v r \<longleftrightarrow> sql_param v \<noteq> JNull \<and> cell r col = sql_param v"
  by (auto simp: hits_def sql_eq_def)

lemma key_map_Nil [simp]: "key_map col [] = Map.empty"
  by (simp add: key_map_def)

lemma key_map_Cons:
  "key_map col (r # rows) = (if cell r col = JNull then key_map col rows else (key_map col rows)(cell r col \<mapsto> r))"
  by (simp add: key_map_def)

lemma key_map_JNull: "key_map col rows JNull = None"
  by (induction rows) (simp_all add: key_map_def)

lemma filter_hits_key_map:
  "distinct (filter (\<lambda>v. v \<noteq> JNull) (map (\<lambda>r. cell r col) rows)) \<Longrightarrow>
   filter (hits col v) rows = as_rows (key_map col rows (sql_param v))"
proof (induction rows)
  case Nil
  then show ?case by (simp add: key_map_def as_rows_def)
next
  case (Cons r rows)
  show ?case
  proof (cases "hits col v r")
    case True
    with Cons.prems have "\<forall>r' \<in> set rows. \<not> hits col v r'"
      by (auto simp: hits_param image_iff)
    with True show ?thesis
      by (auto simp: key_map_Cons hits_param as_rows_def filter_empty_conv)
  next
    case False
    with Cons show ?thesis by (auto simp: key_map_Cons hits_param)
  qed
qed

lemma key_map_update:
  "col \<notin> set (map fst sets) \<Longrightarrow>
   key_map col (map (\<lambda>r. if hits col v r then set_cols sets r else r) rows) =
     (key_map col rows)(sql_param v := map_option (set_cols sets) (key_map col rows (sql_param v)))"
  by (induction rows) (auto simp: key_map_Cons hits_param key_map_JNull fun_eq_iff)

lemma key_map_delete:
  "key_map col (filter (\<lambda>r. \<not> hits col v r) rows) = (key_map col rows)(sql_param v := None)"
  by (induction rows) (auto simp: key_map_Cons hits_param key_map_JNull fun_eq_iff)

lemma as_rows_map: "map f (as_rows ro) = as_rows (map_option f ro)"
  by (simp add: as_rows_def split: option.splits)

text \<open>
  Refinement of the keyed SQL statements by the map specification (lookup, update,
  delete of a key-value store): on a table whose key column is unique, \<open>SELECT \<dots> WHERE
  c = $1\<close> returns the row the keyed view holds for the parameter; \<open>UPDATE \<dots> SET \<dots>
  WHERE c = $n RETURNING *\<close> (not setting the key) changes exactly that entry of the view and
  returns the updated row; \<open>DELETE \<dots> WHERE c = $1\<close> removes exactly that entry and
  returns the deleted row. An \<open>undefined\<close> or \<open>null\<close> parameter is the key \<open>NULL\<close>,
  which the view never holds.
\<close>

lemma keyed_statements_refine:
  assumes tb: "d t = Some tb" and col: "col \<in> set (tcols tb)" and uniq: "unique_col col tb"
  shows "select_where d t col v = Inr (as_rows (key_map col (trows tb) (sql_param v)))
     \<and> (set (map fst sets) \<subseteq> set (tcols tb) \<and> col \<notin> set (map fst sets) \<longrightarrow>
          (\<exists>tb'. update_where d t sets col v =
                   Inr (d(t \<mapsto> tb'), as_rows (map_option (set_cols sets) (key_map col (trows tb) (sql_param v))))
               \<and> tcols tb' = tcols tb
               \<and> key_map col (trows tb') = (key_map col (trows tb))(sql_param v :=
                     map_option (set_cols sets) (key_map col (trows tb) (sql_param v)))))
     \<and> (\<exists>tb'. delete_where d t col v = Inr (d(t \<mapsto> tb'), as_rows (key_map col (trows tb) (sql_param v)))
               \<and> tcols tb' = tcols tb \<and> key_map col (trows tb') = (key_map col (trows tb))(sql_param v := None))"
proof -
  have hits: "filter (hits col v) (trows tb) = as_rows (key_map col (trows tb) (sql_param v))"
    using uniq by (simp add: unique_col_def filter_hits_key_map)
  have sel: "select_where d t col v = Inr (as_rows (key_map col (trows tb) (sql_param v)))"
    using tb col hits by (simp add: select_where_ok)
  have upd: "\<exists>tb'. update_where d t sets col v =
                   Inr (d(t \<mapsto> tb'), as_rows (map_option (set_cols sets) (key_map col (trows tb) (sql_param v))))
               \<and> tcols tb' = tcols tb
               \<and> key_map col (trows tb') = (key_map col (trows tb))(sql_param v :=
                     map_option (set_cols sets) (key_map col (trows tb) (sql_param v)))"
    if "set (map fst sets) \<subseteq> set (tcols tb)" and "col \<notin> set (map fst sets)"
    using that tb col hits key_map_update [OF that(2), of v "trows tb"]
    by (intro exI [of _ "tb\<lparr>trows := map (\<lambda>r. if hits col v r then set_cols sets r else r) (trows tb)\<rparr>"])
       (simp add: update_where_ok as_rows_map)
  have del: "\<exists>tb'. delete_where d t col v = Inr (d(t \<mapsto> tb'), as_rows (key_map col (trows tb) (sql_param v)))
               \<and> tcols tb' = tcols tb \<and> key_map col (trows tb') = (key_map col (trows tb))(sql_param v := None)"
    using tb col hits
    by (intro exI [of _ "tb\<lparr>trows := filter (\<lambda>r. \<not> hits col v r) (trows tb)\<rparr>"])
       (simp add: delete_where_def key_map_delete)
  from sel upd del show ?thesis by blast
qed

end
