(* ===== verification/AccountMapper.thy ===== *)
theory AccountMapper
  imports Sql
begin

text \<open>
  \<open>src/app/models/accountDataMapper.js\<close>: the account data mapper, a singleton of class
  \<open>AccountDataMapper\<close> (extending \<open>CoreDataMapper\<close>) with the static table name
  \<open>'users'\<close> and two methods. \<open>findAccountByUserId\<close> selects the rows whose
  \<open>user_id\<close> equals the argument and returns \<open>null\<close> when there is none, the first
  row otherwise. \<open>updateAccount\<close> loads the account and throws when there is none; on an
  account it calls \<open>account.updateFromData(...)\<close> (line 33). The account is a row as
  \<open>pg\<close> returns it, a plain object whose properties are the column values, none of them
  a function, so that call throws a \<open>TypeError\<close>: the \<open>UPDATE\<close> of lines 35-49 is
  never reached, and \<open>updateAccount\<close> never returns normally.
\<close>

section \<open>Data\<close>

definition account_tableName :: string where
  "account_tableName = ''users''"

text \<open>
  The columns of a user as the \<open>User\<close> typedef of the users router documents them
  (\<open>src/back/app/routers/api/users.js\<close>).
\<close>

definition user_typedef_columns :: "string list" where
  "user_typedef_columns =
     [''id'', ''email'', ''password'', ''first_name'', ''last_name'', ''address'',
      ''comp_address'', ''zipcode'', ''city'', ''birth_date'', ''phone_number'', ''carrier'',
      ''identity_verified'', ''role'', ''created_at'', ''updated_at'']"

datatype mapper_error =
    DbError sql_error            \<comment> \<open>\<open>client.query\<close> rejected\<close>
  | AccountNotFound jsval        \<comment> \<open>\<open>throw new Error(`Account not found for user with id ${userId}`)\<close>\<close>
  | TypeError string             \<comment> \<open>raised by calling a property that is not a function\<close>

section \<open>Operations\<close>

definition findAccountByUserId :: "db \<Rightarrow> jsval \<Rightarrow> sql_error + row js_result" where
  "findAccountByUserId d userId =
     sbind (select_where d account_tableName ''user_id'' userId) (\<lambda>rows.
       if length rows = 0 then Inr JsNull else Inr (js_index0 rows))"

text \<open>
  \<open>updateAccount\<close>, lines 27-33: \<open>if (!account)\<close> is \<open>js_present\<close>; the call
  \<open>account.updateFromData(updatedAccountData)\<close> reads the property \<open>updateFromData\<close>
  of the row, which holds a column value or nothing, never a function, and calling it throws
  \<open>TypeError: account.updateFromData is not a function\<close> before any write.
\<close>

definition updateAccount :: "db \<Rightarrow> jsval \<Rightarrow> jsobj \<Rightarrow> mapper_error + (db \<times> row option)" where
  "updateAccount d userId updatedAccountData =
     (case findAccountByUserId d userId of
        Inl e \<Rightarrow> Inl (DbError e)
      | Inr found \<Rightarrow>
          (case js_present found of
             None \<Rightarrow> Inl (AccountNotFound userId)
           | Some account \<Rightarrow> Inl (TypeError ''account.updateFromData is not a function'')))"

section \<open>A concrete store\<close>

text \<open>
  The table the code presupposes (columns \<open>user_id\<close>, \<open>username\<close>, \<open>email\<close>,
  \<open>password\<close>) with one account of user 1; the witnesses below run the mapper on it.
\<close>

definition ex_row :: row where
  "ex_row = [''user_id'' \<mapsto> JNum 1, ''username'' \<mapsto> JStr ''a'', ''email'' \<mapsto> JStr ''a@x.com'',
             ''password'' \<mapsto> JStr ''h'']"

definition ex_tb :: table where
  "ex_tb = \<lparr>tcols = [''user_id'', ''username'', ''email'', ''password''], trows = [ex_row]\<rparr>"

definition ex_db :: db where
  "ex_db = [''users'' \<mapsto> ex_tb]"

section \<open>Lemmas on the operations\<close>

lemma findAccountByUserId_eq:
  "d account_tableName = Some tb \<Longrightarrow> ''user_id'' \<in> set (tcols tb) \<Longrightarrow>
   findAccountByUserId d u =
     Inr (case filter (hits ''user_id'' u) (trows tb) of [] \<Rightarrow> JsNull | r # _ \<Rightarrow> JsObj r)"
  by (simp add: findAccountByUserId_def select_where_ok js_index0_def split: list.splits)

lemma updateAccount_Inr: "updateAccount d u p \<noteq> Inr res"
  by (simp add: updateAccount_def split: sum.splits option.splits)

lemma updateAccount_existing:
  assumes "d account_tableName = Some tb" and "''user_id'' \<in> set (tcols tb)"
    and "r \<in> set (trows tb)" and "hits ''user_id'' userId r"
  shows "updateAccount d userId patch = Inl (TypeError ''account.updateFromData is not a function'')"
proof -
  from assms(3,4) obtain r' rs where "filter (hits ''user_id'' userId) (trows tb) = r' # rs"
    by (metis empty_filter_conv neq_Nil_conv)
  with assms(1,2) show ?thesis by (simp add: updateAccount_def findAccountByUserId_eq)
qed

section \<open>Properties\<close>

text \<open>
  C1. \<open>updateAccount\<close> never returns normally: whenever the user's account row exists it
  throws the \<open>TypeError\<close> of \<open>account.updateFromData\<close> (line 33), so the
  \<open>UPDATE\<close> is never sent and no partial update of an account ever succeeds.
\<close>

lemma updateAccount_type_error:
  assumes "d account_tableName = Some tb" and "''user_id'' \<in> set (tcols tb)"
    and "r \<in> set (trows tb)" and "hits ''user_id'' userId r"
  shows "updateAccount d userId patch = Inl (TypeError ''account.updateFromData is not a function'')
         \<and> (\<forall>d' u p res. updateAccount d' u p \<noteq> Inr res)"
  using updateAccount_existing [of d tb r userId patch, OF assms] updateAccount_Inr by blast

lemma updateAccount_type_error_witness:
  "updateAccount ex_db (JNum 1) [''username'' \<mapsto> JStr ''b'']
     = Inl (TypeError ''account.updateFromData is not a function'')"
  using updateAccount_type_error [of ex_db ex_tb ex_row "JNum 1" "[''username'' \<mapsto> JStr ''b'']"]
  by (simp add: ex_db_def ex_tb_def account_tableName_def ex_row_def hits_iff cell_def)

text \<open>
  C2. When the user has no account, \<open>updateAccount\<close> throws its not-found error and
  writes nothing.
\<close>

lemma updateAccount_no_account:
  assumes "d account_tableName = Some tb" and "''user_id'' \<in> set (tcols tb)"
    and "\<forall>r \<in> set (trows tb). cell r ''user_id'' \<noteq> userId"
  shows "updateAccount d userId patch = Inl (AccountNotFound userId)"
  using assms by (simp add: updateAccount_def findAccountByUserId_eq filter_empty_conv hits_iff)

lemma updateAccount_no_account_witness:
  "updateAccount ex_db (JNum 2) [''username'' \<mapsto> JStr ''b''] = Inl (AccountNotFound (JNum 2))"
  by (rule updateAccount_no_account [of _ ex_tb])
     (simp_all add: ex_db_def ex_tb_def account_tableName_def ex_row_def cell_def)

text \<open>
  C3. A user without an account is a normal result: \<open>findAccountByUserId\<close> returns the
  explicit \<open>null\<close> of line 22 (not \<open>undefined\<close>, and not an error).
\<close>

lemma findAccountByUserId_absent:
  assumes "d account_tableName = Some tb" and "''user_id'' \<in> set (tcols tb)"
    and "\<forall>r \<in> set (trows tb). cell r ''user_id'' \<noteq> userId"
  shows "findAccountByUserId d userId = Inr JsNull"
  using assms by (simp add: findAccountByUserId_eq filter_empty_conv hits_iff)

lemma findAccountByUserId_absent_witness: "findAccountByUserId ex_db (JNum 2) = Inr JsNull"
  by (rule findAccountByUserId_absent [of _ ex_tb])
     (simp_all add: ex_db_def ex_tb_def account_tableName_def ex_row_def cell_def)

text \<open>
  C4. With \<open>user_id\<close> unique in the table, \<open>findAccountByUserId\<close> returns exactly the row
  of the user whose id it is given.
\<close>

lemma findAccountByUserId_unique:
  assumes "d account_tableName = Some tb" and "''user_id'' \<in> set (tcols tb)"
    and "unique_col ''user_id'' tb" and "r \<in> set (trows tb)"
    and "cell r ''user_id'' = userId" and "userId \<noteq> JNull" and "userId \<noteq> JUndefined"
  shows "findAccountByUserId d userId = Inr (JsObj r)"
proof -
  from assms(5-7) have "hits ''user_id'' userId r" by (simp add: hits_iff)
  with assms(3,4) have "filter (hits ''user_id'' userId) (trows tb) = [r]" by (rule unique_col_filter)
  with assms(1,2) show ?thesis by (simp add: findAccountByUserId_eq)
qed

lemma findAccountByUserId_unique_witness: "findAccountByUserId ex_db (JNum 1) = Inr (JsObj ex_row)"
  by (rule findAccountByUserId_unique [of _ ex_tb])
     (simp_all add: ex_db_def ex_tb_def account_tableName_def ex_row_def cell_def unique_col_def)

text \<open>
  C5. The mapper's table is \<open>users\<close>. On a \<open>users\<close> table with the columns the
  \<open>User\<close> typedef documents, which has no \<open>user_id\<close>, both methods fail with the SQL
  error for the missing column.
\<close>

lemma findAccountByUserId_typedef_schema:
  assumes "d account_tableName = Some tb" and "tcols tb = user_typedef_columns"
  shows "findAccountByUserId d userId = Inl (UndefinedColumn ''user_id'')
       \<and> updateAccount d userId patch = Inl (DbError (UndefinedColumn ''user_id''))"
  using assms by (simp add: findAccountByUserId_def updateAccount_def select_where_no_col user_typedef_columns_def)

lemma findAccountByUserId_typedef_schema_witness:
  "findAccountByUserId [''users'' \<mapsto> \<lparr>tcols = user_typedef_columns, trows = []\<rparr>] (JNum 1)
     = Inl (UndefinedColumn ''user_id'')"
  using findAccountByUserId_typedef_schema [of "[''users'' \<mapsto> \<lparr>tcols = user_typedef_columns, trows = []\<rparr>]"]
  by (simp add: account_tableName_def)

text \<open>
  C6. Boundary keys: with an \<open>undefined\<close> or \<open>null\<close> user id, which \<open>pg\<close> sends as
  \<open>NULL\<close>, \<open>WHERE user_id = $1\<close> matches no row (not even a row whose \<open>user_id\<close> is
  \<open>NULL\<close>): \<open>findAccountByUserId\<close> returns \<open>null\<close> and \<open>updateAccount\<close> throws its
  not-found error.
\<close>

lemma findAccountByUserId_null_key:
  assumes "d account_tableName = Some tb" and "''user_id'' \<in> set (tcols tb)"
    and "userId = JUndefined \<or> userId = JNull"
  shows "findAccountByUserId d userId = Inr JsNull \<and> updateAccount d userId patch = Inl (AccountNotFound userId)"
proof -
  have "filter (hits ''user_id'' userId) (trows tb) = []" using assms(3) by (auto simp: hits_iff filter_empty_conv)
  with assms(1,2) show ?thesis by (simp add: findAccountByUserId_eq updateAccount_def)
qed

lemma findAccountByUserId_null_key_witness:
  "findAccountByUserId [''users'' \<mapsto> \<lparr>tcols = [''user_id''], trows = [[''user_id'' \<mapsto> JNull]]\<rparr>] JNull = Inr JsNull"
  using findAccountByUserId_null_key [of "[''users'' \<mapsto> \<lparr>tcols = [''user_id''], trows = [[''user_id'' \<mapsto> JNull]]\<rparr>]"
      "\<lparr>tcols = [''user_id''], trows = [[''user_id'' \<mapsto> JNull]]\<rparr>" JNull]
  by (simp add: account_tableName_def)

end
