(* ===== verification/Identity.thy ===== *)
theory Identity
  imports Prelude
begin

text \<open>
  The identity resolver: the \<open>authJwt\<close> middleware (\<open>middlewares/authJwt\<close>, required
  by the users router but not part of the repository's sources) and the token issuance
  \<open>authenticate\<close> performs at login. Modelled from spec 4.1 and 4.5. A bearer token is
  a record of its claims \<open>{userId, role}\<close>, its expiry and its signature; signing is an
  external primitive, a parameter \<open>signer\<close> of every operation (spec 9: only the
  sign-and-verify contract is specified). The header is given already split: no header,
  a token that does not parse, or a parsed bearer token.
\<close>

datatype role = Customer | Carrier | Admin

record identity =
  uid :: int
  urole :: role

datatype auth_failure = MissingCredential | InvalidCredential | ExpiredCredential

record 's jwt =
  jwt_sub :: identity
  jwt_exp :: nat
  jwt_sig :: 's

datatype 's credential = Bearer "'s jwt" | Malformed string

text \<open>\<open>resolve(credential)\<close>: verify the signature, then the expiry, then decode.\<close>

definition resolve ::
  "(identity \<Rightarrow> nat \<Rightarrow> 's) \<Rightarrow> nat \<Rightarrow> 's credential option \<Rightarrow> auth_failure + identity" where
  "resolve signer now cred =
     (case cred of
        None \<Rightarrow> Inl MissingCredential
      | Some (Malformed _) \<Rightarrow> Inl InvalidCredential
      | Some (Bearer t) \<Rightarrow>
          if jwt_sig t \<noteq> signer (jwt_sub t) (jwt_exp t) then Inl InvalidCredential
          else if jwt_exp t \<le> now then Inl ExpiredCredential
          else Inr (jwt_sub t))"

text \<open>A fresh token for an identity, valid for \<open>ttl\<close> time units from \<open>now\<close>.\<close>

definition issue :: "(identity \<Rightarrow> nat \<Rightarrow> 's) \<Rightarrow> nat \<Rightarrow> nat \<Rightarrow> identity \<Rightarrow> 's jwt" where
  "issue signer ttl now ident =
     \<lparr>jwt_sub = ident, jwt_exp = now + ttl, jwt_sig = signer ident (now + ttl)\<rparr>"

text \<open>A toy signer for the witnesses: it binds the signature to the user and the expiry.\<close>

definition toy_signer :: "identity \<Rightarrow> nat \<Rightarrow> int \<times> nat" where
  "toy_signer ident e = (uid ident, e)"

section \<open>Resolution\<close>

text \<open>
  Round trip of issuance and resolution: a token issued for an identity resolves to that
  identity until it expires, and to the expiry failure from then on.
\<close>

lemma resolve_issue_roundtrip:
  "resolve signer now (Some (Bearer (issue signer ttl t0 ident))) =
   (if now < t0 + ttl then Inr ident else Inl ExpiredCredential)"
  by (simp add: resolve_def issue_def not_le)

text \<open>
  The resolver yields an identity only for a bearer token whose signature verifies and
  which has not expired, and the identity is the token's subject.
\<close>

lemma resolve_Inr_iff:
  "resolve signer now cred = Inr ident \<longleftrightarrow>
   (\<exists>t. cred = Some (Bearer t) \<and> jwt_sig t = signer (jwt_sub t) (jwt_exp t) \<and>
        now < jwt_exp t \<and> jwt_sub t = ident)"
  by (auto simp: resolve_def not_le split: option.splits credential.splits)

end
