(* ===== verification/SpecMappers.thy ===== *)
theory SpecMappers
  imports AccountMapper Identity
begin

text \<open>
  The data mappers the users controller calls besides the account mapper. None of them is
  in the repository's sources (\<open>CoreDataMapper\<close>, the user and carrier mappers), so each
  is modelled from the spec over the same SQL layer as the account mapper:
  \<^item> \<open>CoreDataMapper\<close> (spec 3, 4.3): \<open>findByPk\<close>, \<open>findAll\<close>, \<open>delete\<close> on a table whose
    primary key column is \<open>id\<close>; following the spec's soft-deletion invariant, \<open>delete\<close>
    marks the row inactive (column \<open>active\<close>, a name the spec leaves open) instead of
    removing it;
  \<^item> the user mapper (spec 4.5): \<open>createSecureUser\<close> rejects a duplicate e-mail and stores
    the hashed password; the new row's \<open>id\<close> is the value the database assigns (its column
    default), a parameter; \<open>authenticate\<close> checks the password's hash and issues a token;
    the one-way hash is a parameter;
  \<^item> the carrier mapper (spec 4.4): lookup by owning user and partial update keyed by the
    owning user's id.
\<close>

section \<open>CoreDataMapper\<close>

definition findByPk :: "string \<Rightarrow> db \<Rightarrow> jsval \<Rightarrow> sql_error + row option" where
  "findByPk t d key = sbind (select_where d t ''id'' key) (\<lambda>rows. Inr (js_first rows))"

definition findAll :: "string \<Rightarrow> db \<Rightarrow> sql_error + row list" where
  "findAll t d = select_all d t"

text \<open>
  \<open>delete(key)\<close> (spec 3: deletion marks inactive rather than purging):
  \<open>UPDATE t SET active = false WHERE id = $1 RETURNING *\<close>; \<open>True\<close> when a row was
  marked (Deleted), \<open>False\<close> otherwise (NotFound).
\<close>

definition deleteByPk :: "string \<Rightarrow> db \<Rightarrow> jsval \<Rightarrow> sql_error + (db \<times> bool)" where
  "deleteByPk t d key =
     sbind (update_where d t [(''active'', JBool False)] ''id'' key) (\<lambda>(d', rows). Inr (d', rows \<noteq> []))"

section \<open>The account mapper object\<close>

text \<open>
  \<open>class AccountDataMapper extends CoreDataMapper\<close> with \<open>static tableName = 'users'\<close>, and
  \<open>module.exports = new AccountDataMapper()\<close>: the exported object has the two methods of
  \<open>accountDataMapper.js\<close> and inherits \<open>findByPk\<close>, \<open>findAll\<close> and \<open>delete\<close>, which
  read the table name from \<open>this.constructor.tableName\<close>, here \<open>users\<close>. The constructor
  only calls \<open>super()\<close> and logs; the object has no state of its own.
\<close>

record account_data_mapper =
  adm_findAccountByUserId :: "db \<Rightarrow> jsval \<Rightarrow> sql_error + row js_result"
  adm_updateAccount :: "db \<Rightarrow> jsval \<Rightarrow> jsobj \<Rightarrow> mapper_error + (db \<times> row option)"
  adm_findByPk :: "db \<Rightarrow> jsval \<Rightarrow> sql_error + row option"
  adm_findAll :: "db \<Rightarrow> sql_error + row list"
  adm_delete :: "db \<Rightarrow> jsval \<Rightarrow> sql_error + (db \<times> bool)"

definition accountDataMapper :: account_data_mapper where
  "accountDataMapper =
     \<lparr>adm_findAccountByUserId = findAccountByUserId, adm_updateAccount = updateAccount,
      adm_findByPk = findByPk account_tableName, adm_findAll = findAll account_tableName,
      adm_delete = deleteByPk account_tableName\<rparr>"

section \<open>User mapper\<close>

definition users_tableName :: string where
  "users_tableName = ''users''"

datatype user_error = DuplicateEmail | UserDbError sql_error

text \<open>The registration fields of \<open>POST /users/register\<close>, in the router's order.\<close>

definition register_fields :: "string list" where
  "register_fields =
     [''email'', ''password'', ''first_name'', ''last_name'', ''address'', ''comp_address'',
      ''zipcode'', ''city'', ''birth_date'', ''phone_number'']"

text \<open>
  \<open>createSecureUser\<close>: \<open>nid\<close> is the id the database assigns to the inserted row (the
  column default of \<open>users.id\<close>, a sequence of the database).
\<close>

definition createSecureUser :: "(string \<Rightarrow> string) \<Rightarrow> int \<Rightarrow> db \<Rightarrow> jsobj \<Rightarrow> user_error + (db \<times> row)" where
  "createSecureUser hash nid d data =
     (case select_where d users_tableName ''email'' (js_get data ''email'') of
        Inl e \<Rightarrow> Inl (UserDbError e)
      | Inr (_ # _) \<Rightarrow> Inl DuplicateEmail
      | Inr [] \<Rightarrow>
          (let pw = (case js_get data ''password'' of JStr p \<Rightarrow> p | _ \<Rightarrow> []);
               vals = (''id'', JNum nid) #
                      map (\<lambda>c. (c, if c = ''password'' then JStr (hash pw) else js_get data c))
                          register_fields
           in case insert_row d users_tableName vals of
                Inl e \<Rightarrow> Inl (UserDbError e)
              | Inr (d', r) \<Rightarrow> Inr (d', r)))"

text \<open>The role column as stored: \<open>'admin'\<close>, \<open>'carrier'\<close>, anything else a customer.\<close>

definition role_of :: "jsval \<Rightarrow> role" where
  "role_of v = (if v = JStr ''admin'' then Admin else if v = JStr ''carrier'' then Carrier else Customer)"

definition authenticate ::
  "(identity \<Rightarrow> nat \<Rightarrow> 's) \<Rightarrow> (string \<Rightarrow> string) \<Rightarrow> nat \<Rightarrow> nat \<Rightarrow> db \<Rightarrow> jsval \<Rightarrow> string \<Rightarrow>
   auth_failure + 's jwt" where
  "authenticate signer hash ttl now d email plain =
     (case select_where d users_tableName ''email'' email of
        Inr (r # _) \<Rightarrow>
          (case cell r ''id'' of
             JNum n \<Rightarrow>
               if cell r ''password'' = JStr (hash plain)
               then Inr (issue signer ttl now \<lparr>uid = n, urole = role_of (cell r ''role'')\<rparr>)
               else Inl InvalidCredential
           | _ \<Rightarrow> Inl InvalidCredential)
      | _ \<Rightarrow> Inl InvalidCredential)"

section \<open>Carrier mapper\<close>

definition carrier_tableName :: string where
  "carrier_tableName = ''carriers''"

definition findCarrierByUserId :: "db \<Rightarrow> jsval \<Rightarrow> sql_error + row option" where
  "findCarrierByUserId d userId =
     sbind (select_where d carrier_tableName ''user_id'' userId) (\<lambda>rows. Inr (js_first rows))"

text \<open>
  \<open>updateCarrier(userId, patch)\<close> (spec 4.4): load, merge the patch's values for the
  carrier's columns other than the key (fields the patch omits keep their values),
  write them back keyed by the owning user's id.
\<close>

definition updateCarrier :: "db \<Rightarrow> jsval \<Rightarrow> jsobj \<Rightarrow> mapper_error + (db \<times> row option)" where
  "updateCarrier d userId patch =
     (case findCarrierByUserId d userId of
        Inl e \<Rightarrow> Inl (DbError e)
      | Inr None \<Rightarrow> Inl (AccountNotFound userId)
      | Inr (Some carrier) \<Rightarrow>
          (case table_of d carrier_tableName of
             Inl e \<Rightarrow> Inl (DbError e)
           | Inr tb \<Rightarrow>
               (let merged = carrier ++ patch;
                    sets = map (\<lambda>c. (c, js_get merged c)) (filter (\<lambda>c. c \<noteq> ''user_id'') (tcols tb))
                in case update_where d carrier_tableName sets ''user_id'' userId of
                     Inl e \<Rightarrow> Inl (DbError e)
                   | Inr (d', rows) \<Rightarrow> Inr (d', js_first rows))))"

section \<open>Examples\<close>

text \<open>The values \<open>createSecureUser\<close> inserts, and an empty \<open>users\<close> table with a registration.\<close>

definition reg_vals :: "(string \<Rightarrow> string) \<Rightarrow> int \<Rightarrow> jsobj \<Rightarrow> (string \<times> jsval) list" where
  "reg_vals hash n data = (''id'', JNum n) #
      map (\<lambda>c. (c, if c = ''password'' then JStr (hash (case js_get data ''password'' of JStr p \<Rightarrow> p | _ \<Rightarrow> [])) else js_get data c))
          register_fields"

definition reg_db :: db where
  "reg_db = [''users'' \<mapsto> \<lparr>tcols = ''id'' # register_fields @ [''role''], trows = []\<rparr>]"

definition reg_data :: jsobj where
  "reg_data = [''email'' \<mapsto> JStr ''e@x.com'', ''password'' \<mapsto> JStr ''pw'']"

section \<open>Lemmas\<close>

lemma createSecureUser_new:
  assumes tb: "d users_tableName = Some tb"
    and cols: "set (''id'' # register_fields) \<subseteq> set (tcols tb)"
    and fresh: "\<forall>r \<in> set (trows tb). \<not> hits ''email'' (js_get data ''email'') r"
  shows "createSecureUser hash nid d data =
     Inr (d(users_tableName \<mapsto> tb\<lparr>trows := trows tb @ [set_cols (reg_vals hash (nid) data)
                                   (map_of (map (\<lambda>c. (c, JNull)) (tcols tb)))]\<rparr>),
          set_cols (reg_vals hash (nid) data) (map_of (map (\<lambda>c. (c, JNull)) (tcols tb))))"
proof -
  have e: "''email'' \<in> set (tcols tb)" using cols by (simp add: register_fields_def)
  have "set (map fst (reg_vals hash (nid) data)) \<subseteq> set (tcols tb)"
    using cols by (auto simp: reg_vals_def)
  then show ?thesis
    using tb e fresh
    by (simp add: createSecureUser_def select_where_ok filter_empty_conv select_all_def insert_row_ok reg_vals_def Let_def)
qed

lemma reg_vals_distinct: "distinct (map fst (reg_vals hash n data))"
  by (simp add: reg_vals_def register_fields_def)

section \<open>Registration\<close>

text \<open>
  Registration with an e-mail some user already has fails with DuplicateEmail; registration
  with a fresh e-mail appends one row holding the hash of the password and keeps e-mails
  unique. The pipeline lifts both to \<open>POST /users/register\<close>.
\<close>

lemma createSecureUser_duplicate:
  assumes "d users_tableName = Some tb" and "''email'' \<in> set (tcols tb)"
    and "r \<in> set (trows tb)" and "hits ''email'' (js_get data ''email'') r"
  shows "createSecureUser hash nid d data = Inl DuplicateEmail"
proof -
  from assms(3,4) obtain r' rs where "filter (hits ''email'' (js_get data ''email'')) (trows tb) = r' # rs"
    by (metis empty_filter_conv neq_Nil_conv)
  with assms(1,2) show ?thesis by (simp add: createSecureUser_def select_where_ok)
qed

lemma createSecureUser_secure:
  assumes tb: "d users_tableName = Some tb"
    and cols: "set (''id'' # register_fields) \<subseteq> set (tcols tb)"
    and fresh: "\<forall>r \<in> set (trows tb). \<not> hits ''email'' (js_get data ''email'') r"
    and pw: "js_get data ''password'' = JStr pw"
  shows "\<exists>d' r tb'. createSecureUser hash nid d data = Inr (d', r) \<and> d' users_tableName = Some tb' \<and>
           trows tb' = trows tb @ [r] \<and> cell r ''password'' = JStr (hash pw) \<and>
           (unique_col ''email'' tb \<longrightarrow> unique_col ''email'' tb')"
proof -
  let ?r = "set_cols (reg_vals hash (nid) data) (map_of (map (\<lambda>c. (c, JNull)) (tcols tb)))"
  have res: "createSecureUser hash nid d data = Inr (d(users_tableName \<mapsto> tb\<lparr>trows := trows tb @ [?r]\<rparr>), ?r)"
    by (rule createSecureUser_new [where d = d and tb = tb and data = data, OF tb cols fresh])
  have "(''password'', JStr (hash pw)) \<in> set (reg_vals hash (nid) data)"
    using pw by (simp add: reg_vals_def register_fields_def)
  then have p: "cell ?r ''password'' = JStr (hash pw)"
    by (simp add: cell_def set_cols_last [OF reg_vals_distinct])
  have "(''email'', js_get data ''email'') \<in> set (reg_vals hash (nid) data)"
    by (simp add: reg_vals_def register_fields_def)
  then have "cell ?r ''email'' = sql_param (js_get data ''email'')"
    by (simp add: cell_def set_cols_last [OF reg_vals_distinct])
  then have "unique_col ''email'' tb \<longrightarrow> unique_col ''email'' (tb\<lparr>trows := trows tb @ [?r]\<rparr>)"
    using fresh unique_col_snoc by blast
  with res p show ?thesis by auto
qed

lemma createSecureUser_Inr:
  "createSecureUser hash nid d data = Inr (d', r) \<Longrightarrow> \<exists>vals. insert_row d users_tableName vals = Inr (d', r)"
  by (auto simp: createSecureUser_def Let_def split: sum.splits list.splits)

end
