(* ===== verification/Guard.thy ===== *)
theory Guard
  imports Identity
begin

text \<open>
  The ownership guard of spec 4.2: a pure decision, ALLOW iff the caller is the owner of
  the target user's resources or an admin. Not part of the repository's sources (the users
  router installs no guard middleware; the controllers are expected to apply it), so it is
  modelled from the spec. A denial is an authorisation failure, distinct from the
  authentication failures of \<^typ>\<open>auth_failure\<close>.
\<close>

datatype authz_failure = NotOwner | InsufficientRole

datatype decision = Allow | Deny authz_failure

definition authorize :: "identity \<Rightarrow> int \<Rightarrow> decision" where
  "authorize ident targetUserId =
     (if uid ident = targetUserId \<or> urole ident = Admin then Allow else Deny NotOwner)"

lemma authorize_Allow_iff:
  "authorize ident target = Allow \<longleftrightarrow> uid ident = target \<or> urole ident = Admin"
  by (simp add: authorize_def)

lemma authorize_Deny:
  "authorize ident target = Deny f \<longleftrightarrow> uid ident \<noteq> target \<and> urole ident \<noteq> Admin \<and> f = NotOwner"
  by (auto simp: authorize_def)

end
