(* ===== verification/Router.thy ===== *)
theory Router
  imports Prelude
begin

text \<open>
  \<open>src/back/app/routers/api/users.js\<close>: the Express router of \<open>/users\<close>. Each
  \<open>router.get/post/put/delete(path, ...handlers)\<close> call registers one route: a method,
  a path pattern (literal segments and \<open>:id\<close> parameters) and a chain of middleware
  (\<open>authenticationJwt\<close>, \<open>validate(schema, 'body')\<close>, and the controller method wrapped by
  \<open>controllerHandler\<close>). Express tries the routes in registration order and runs the
  chain of the first one whose method and path match. Paths are taken relative to the
  router's mount point, split into segments; how \<open>express.Router()\<close> matches them
  (case-insensitive literals, an optional trailing slash) is described at \<open>match_path\<close>.
\<close>

datatype http_method = GET | POST | PUT | DELETE

datatype segment = Lit string | Param string

text \<open>The validation schemas (\<open>schemas.post\<close>, \<open>schemas.put\<close>, \<open>userAuth.post\<close>).\<close>

datatype schema = UsersPost | UsersPut | UserAuthPost

text \<open>The \<open>usersController\<close> methods the router binds.\<close>

datatype handler =
    FindAll | LoginAction | CreateSecureUser | FindByPk | FindAccountByUserId
  | UpdateUserById | Delete | FindCarrierByUserId | UpdateCarrierById

datatype middleware =
    AuthenticationJwt
  | Validate schema string
  | ControllerHandler handler

record route =
  rmethod :: http_method
  rpath :: "segment list"
  rchain :: "middleware list"

definition users_router :: "route list" where
  "users_router =
    [\<lparr>rmethod = GET, rpath = [], rchain = [ControllerHandler FindAll]\<rparr>,
     \<lparr>rmethod = POST, rpath = [Lit ''login''],
        rchain = [Validate UserAuthPost ''body'', ControllerHandler LoginAction]\<rparr>,
     \<lparr>rmethod = POST, rpath = [Lit ''register''],
        rchain = [Validate UsersPost ''body'', ControllerHandler CreateSecureUser]\<rparr>,
     \<lparr>rmethod = GET, rpath = [Param ''id''],
        rchain = [AuthenticationJwt, ControllerHandler FindByPk]\<rparr>,
     \<lparr>rmethod = GET, rpath = [Param ''id'', Lit ''account''],
        rchain = [AuthenticationJwt, ControllerHandler FindAccountByUserId]\<rparr>,
     \<lparr>rmethod = PUT, rpath = [Param ''id'', Lit ''account''],
        rchain = [AuthenticationJwt, Validate UsersPut ''body'', ControllerHandler UpdateUserById]\<rparr>,
     \<lparr>rmethod = DELETE, rpath = [Param ''id'', Lit ''account''],
        rchain = [AuthenticationJwt, ControllerHandler Delete]\<rparr>,
     \<lparr>rmethod = GET, rpath = [Param ''id'', Lit ''carrier''],
        rchain = [AuthenticationJwt, ControllerHandler FindCarrierByUserId]\<rparr>,
     \<lparr>rmethod = PUT, rpath = [Param ''id'', Lit ''carrier''],
        rchain = [AuthenticationJwt, Validate UsersPut ''body'', ControllerHandler UpdateCarrierById]\<rparr>,
     \<lparr>rmethod = DELETE, rpath = [Param ''id'', Lit ''carrier''],
        rchain = [AuthenticationJwt, ControllerHandler Delete]\<rparr>]"

text \<open>
  Matching a path pattern against the request's path, as \<open>express.Router()\<close> compiles it
  with its default options. A path is the list of its segments: \<open>/\<close> is \<open>[]\<close>,
  \<open>/1/account\<close> is \<open>[''1'', ''account'']\<close>, and a trailing slash after a non-empty path
  is a last, empty segment. The segments are those of the raw (percent-encoded, hence
  ASCII) path the route's regular expression is run on.
  \<^item> \<open>caseSensitive: false\<close>: a literal segment matches ignoring the case of ASCII
    letters (the \<open>i\<close> flag of the regular expression);
  \<^item> \<open>strict: false\<close>: a non-root pattern also matches its path followed by one slash;
  \<^item> a parameter matches any non-empty segment, which it binds (\<open>req.params\<close>).
\<close>

definition fold_code :: "char \<Rightarrow> nat" where
  "fold_code c = (let n = of_char c in if 97 \<le> n \<and> n \<le> 122 then n - 32 else n)"

definition seg_eq :: "string \<Rightarrow> string \<Rightarrow> bool" where
  "seg_eq l s = (map fold_code l = map fold_code s)"

fun match_segs :: "segment list \<Rightarrow> string list \<Rightarrow> (string \<times> string) list option" where
  "match_segs [] [] = Some []"
| "match_segs (Lit l # ps) (s # ss) = (if seg_eq l s then match_segs ps ss else None)"
| "match_segs (Param n # ps) (s # ss) =
     (if s = [] then None else map_option (\<lambda>m. (n, s) # m) (match_segs ps ss))"
| "match_segs _ _ = None"

definition match_path :: "segment list \<Rightarrow> string list \<Rightarrow> (string \<times> string) list option" where
  "match_path pat p =
     (case match_segs pat p of
        Some m \<Rightarrow> Some m
      | None \<Rightarrow> if pat \<noteq> [] \<and> p \<noteq> [] \<and> last p = [] then match_segs pat (butlast p) else None)"

text \<open>Express's dispatch: the first registered route whose method and path match.\<close>

fun dispatch :: "route list \<Rightarrow> http_method \<Rightarrow> string list \<Rightarrow> (route \<times> (string \<times> string) list) option" where
  "dispatch [] m p = None"
| "dispatch (r # rs) m p =
     (if rmethod r = m then
        (case match_path (rpath r) p of Some ps \<Rightarrow> Some (r, ps) | None \<Rightarrow> dispatch rs m p)
      else dispatch rs m p)"

text \<open>The path a pattern produces from parameter values (the inverse of matching).\<close>

fun fill_path :: "segment list \<Rightarrow> (string \<Rightarrow> string) \<Rightarrow> string list" where
  "fill_path [] vals = []"
| "fill_path (Lit l # ps) vals = l # fill_path ps vals"
| "fill_path (Param n # ps) vals = vals n # fill_path ps vals"

text \<open>The parameter names of a pattern, in order.\<close>

fun param_names :: "segment list \<Rightarrow> string list" where
  "param_names [] = []"
| "param_names (Lit l # ps) = param_names ps"
| "param_names (Param n # ps) = n # param_names ps"

text \<open>Whether a route binds a parameter (an \<open>:id\<close>-scoped route).\<close>

definition id_scoped :: "route \<Rightarrow> bool" where
  "id_scoped r = (param_names (rpath r) \<noteq> [])"

section \<open>Lemmas\<close>

lemma seg_eq_refl [simp]: "seg_eq l l"
  by (simp add: seg_eq_def)

lemma match_segs_names: "match_segs pat p = Some ps \<Longrightarrow> map fst ps = param_names pat"
  by (induction pat p arbitrary: ps rule: match_segs.induct) (auto split: if_splits)

lemma match_segs_length: "match_segs pat p = Some ps \<Longrightarrow> length p = length pat"
  by (induction pat p arbitrary: ps rule: match_segs.induct) (auto split: if_splits)

lemma match_path_names: "match_path pat p = Some ps \<Longrightarrow> map fst ps = param_names pat"
  by (auto simp: match_path_def match_segs_names split: option.splits if_splits)

lemma dispatch_Some_iff:
  "dispatch rs m p = Some (r, ps) \<longleftrightarrow>
   (\<exists>pre post. rs = pre @ r # post \<and> rmethod r = m \<and> match_path (rpath r) p = Some ps \<and>
      (\<forall>r' \<in> set pre. rmethod r' = m \<longrightarrow> match_path (rpath r') p = None))"
proof (induction rs)
  case Nil
  then show ?case by simp
next
  case (Cons r0 rs)
  show ?case
  proof (cases "rmethod r0 = m \<and> match_path (rpath r0) p \<noteq> None")
    case True
    then obtain ps0 where m0: "rmethod r0 = m" and ps0: "match_path (rpath r0) p = Some ps0"
      by auto
    show ?thesis
    proof
      assume "dispatch (r0 # rs) m p = Some (r, ps)"
      with m0 ps0 have "r = r0" and "ps = ps0" by simp_all
      with m0 ps0 show "\<exists>pre post. r0 # rs = pre @ r # post \<and> rmethod r = m \<and>
          match_path (rpath r) p = Some ps \<and> (\<forall>r' \<in> set pre. rmethod r' = m \<longrightarrow> match_path (rpath r') p = None)"
        by (intro exI [of _ "[]"] exI [of _ rs]) simp
    next
      assume "\<exists>pre post. r0 # rs = pre @ r # post \<and> rmethod r = m \<and>
          match_path (rpath r) p = Some ps \<and> (\<forall>r' \<in> set pre. rmethod r' = m \<longrightarrow> match_path (rpath r') p = None)"
      then obtain pre post where h: "r0 # rs = pre @ r # post" and hm: "match_path (rpath r) p = Some ps"
        and hpre: "\<forall>r' \<in> set pre. rmethod r' = m \<longrightarrow> match_path (rpath r') p = None"
        by blast
      have "pre = []"
      proof (cases pre)
        case (Cons x pre')
        with h have "r0 \<in> set pre" by simp
        with hpre m0 ps0 show ?thesis by simp
      qed
      with h hm m0 show "dispatch (r0 # rs) m p = Some (r, ps)" by simp
    qed
  next
    case False
    then have eq: "dispatch (r0 # rs) m p = dispatch rs m p" by (auto split: option.splits)
    have skip: "rmethod r0 = m \<longrightarrow> match_path (rpath r0) p = None" using False by simp
    show ?thesis
    proof
      assume "dispatch (r0 # rs) m p = Some (r, ps)"
      with eq Cons.IH obtain pre post where "rs = pre @ r # post" "rmethod r = m"
        "match_path (rpath r) p = Some ps"
        "\<forall>r' \<in> set pre. rmethod r' = m \<longrightarrow> match_path (rpath r') p = None"
        by auto
      with skip show "\<exists>pre post. r0 # rs = pre @ r # post \<and> rmethod r = m \<and>
          match_path (rpath r) p = Some ps \<and> (\<forall>r' \<in> set pre. rmethod r' = m \<longrightarrow> match_path (rpath r') p = None)"
        by (intro exI [of _ "r0 # pre"] exI [of _ post]) simp
    next
      assume "\<exists>pre post. r0 # rs = pre @ r # post \<and> rmethod r = m \<and>
          match_path (rpath r) p = Some ps \<and> (\<forall>r' \<in> set pre. rmethod r' = m \<longrightarrow> match_path (rpath r') p = None)"
      then obtain pre post where h: "r0 # rs = pre @ r # post" and hm: "rmethod r = m"
        and hp: "match_path (rpath r) p = Some ps"
        and hpre: "\<forall>r' \<in> set pre. rmethod r' = m \<longrightarrow> match_path (rpath r') p = None"
        by blast
      show "dispatch (r0 # rs) m p = Some (r, ps)"
      proof (cases pre)
        case Nil
        with h hm hp False show ?thesis by simp
      next
        case (Cons x pre')
        with h hm hp hpre have "dispatch rs m p = Some (r, ps)" using Cons.IH by auto
        with eq show ?thesis by simp
      qed
    qed
  qed
qed

lemma dispatch_Some_in: "dispatch rs m p = Some (r, ps) \<Longrightarrow> r \<in> set rs"
  by (auto simp: dispatch_Some_iff)

lemma users_router_id_scoped: "\<forall>r \<in> set users_router. id_scoped r \<longrightarrow> (\<exists>rest. rchain r = AuthenticationJwt # rest)"
  by (simp add: users_router_def id_scoped_def)

lemma dispatch_id_scoped:
  assumes "dispatch users_router m p = Some (r, ps)" and "ps \<noteq> []"
  shows "r \<in> set users_router \<and> id_scoped r"
proof
  from assms(1) show "r \<in> set users_router" by (rule dispatch_Some_in)
  from assms show "id_scoped r"
    by (auto simp: id_scoped_def dispatch_Some_iff dest!: match_path_names)
qed

text \<open>Matching is evaluated on the concrete routes and paths of the lemmas below.\<close>

declare match_path_def [simp] seg_eq_def [simp] fold_code_def [simp]

section \<open>Properties\<close>

text \<open>
  C7. Every request the users router dispatches to a route that binds an \<open>:id\<close>
  parameter runs \<open>authenticationJwt\<close> first: no \<open>:id\<close>-scoped handler is reached
  without the identity resolver.
\<close>

lemma dispatch_id_scoped_authenticated:
  assumes "dispatch users_router m p = Some (r, ps)" and "ps \<noteq> []"
  shows "\<exists>rest. rchain r = AuthenticationJwt # rest"
  using dispatch_id_scoped [OF assms] users_router_id_scoped by blast

lemma dispatch_id_scoped_authenticated_witness:
  "\<exists>r rest. dispatch users_router DELETE [''2'', ''account''] = Some (r, [(''id'', ''2'')])
     \<and> rchain r = AuthenticationJwt # rest"
proof -
  have d: "dispatch users_router DELETE [''2'', ''account''] =
     Some (\<lparr>rmethod = DELETE, rpath = [Param ''id'', Lit ''account''],
        rchain = [AuthenticationJwt, ControllerHandler Delete]\<rparr>, [(''id'', ''2'')])"
    by (simp add: users_router_def)
  from dispatch_id_scoped_authenticated [OF d] show ?thesis using d by blast
qed

text \<open>
  C8. Only three requests run without the identity resolver: a request the users router
  dispatches to a chain without \<open>authenticationJwt\<close> binds no parameter and reaches
  \<open>GET /\<close> (\<open>findAll\<close>, the list of all users), \<open>POST /login\<close> or
  \<open>POST /register\<close>, with the chain registered for it.
\<close>

lemma users_router_public_routes:
  assumes "dispatch users_router m p = Some (r, ps)" and "AuthenticationJwt \<notin> set (rchain r)"
  shows "ps = [] \<and> (m, rpath r, rchain r) \<in>
           {(GET, [], [ControllerHandler FindAll]),
            (POST, [Lit ''login''], [Validate UserAuthPost ''body'', ControllerHandler LoginAction]),
            (POST, [Lit ''register''], [Validate UsersPost ''body'', ControllerHandler CreateSecureUser])}"
proof -
  from assms(1) have r: "r \<in> set users_router" and m: "rmethod r = m"
    and ps: "match_path (rpath r) p = Some ps"
    using dispatch_Some_iff [of users_router m p r ps] by (auto simp del: match_path_def dest: dispatch_Some_in)
  from r assms(2) have "rpath r = [] \<or> rpath r = [Lit ''login''] \<or> rpath r = [Lit ''register'']"
    by (auto simp: users_router_def)
  then have "param_names (rpath r) = []" by auto
  with match_path_names [OF ps] have "ps = []" by (simp del: match_path_def)
  with r m assms(2) show ?thesis by (auto simp: users_router_def)
qed

lemma users_router_public_routes_witness:
  "dispatch users_router GET [] =
     Some (\<lparr>rmethod = GET, rpath = [], rchain = [ControllerHandler FindAll]\<rparr>, [])
   \<and> (GET, [], [ControllerHandler FindAll]) \<in>
           {(GET, [], [ControllerHandler FindAll]),
            (POST, [Lit ''login''], [Validate UserAuthPost ''body'', ControllerHandler LoginAction]),
            (POST, [Lit ''register''], [Validate UsersPost ''body'', ControllerHandler CreateSecureUser])}"
proof -
  have d: "dispatch users_router GET [] =
     Some (\<lparr>rmethod = GET, rpath = [], rchain = [ControllerHandler FindAll]\<rparr>, [])"
    by (simp add: users_router_def)
  from users_router_public_routes [OF d] d show ?thesis by simp
qed

text \<open>
  C9. Every one-segment \<open>GET\<close> under \<open>/users\<close>, with or without a trailing slash, reaches
  the profile route \<open>GET /:id\<close> with that segment as the id, even \<open>GET /users/login\<close>
  and \<open>GET /users/register\<close>: those two routes are registered for \<open>POST\<close> only, and
  \<open>GET /\<close> does not match a non-empty segment.
\<close>

lemma dispatch_get_one_segment:
  assumes "s \<noteq> []"
  shows "dispatch users_router GET [s] =
           Some (\<lparr>rmethod = GET, rpath = [Param ''id''], rchain = [AuthenticationJwt, ControllerHandler FindByPk]\<rparr>,
                 [(''id'', s)])
         \<and> dispatch users_router GET [s, []] = dispatch users_router GET [s]"
  using assms by (simp add: users_router_def)

lemma dispatch_get_one_segment_witness:
  "dispatch users_router GET [''login''] =
     Some (\<lparr>rmethod = GET, rpath = [Param ''id''], rchain = [AuthenticationJwt, ControllerHandler FindByPk]\<rparr>,
           [(''id'', ''login'')])"
  using dispatch_get_one_segment [of "''login''"] by simp

text \<open>
  C10. No registration of the users router is shadowed by an earlier one: for every route
  and every non-empty value of its \<open>:id\<close>, the request with the route's method and the
  path the route's pattern spells is dispatched to that route, binding the value.
\<close>

lemma users_router_routes_reachable:
  assumes "r \<in> set users_router" and "v \<noteq> []"
  shows "dispatch users_router (rmethod r) (fill_path (rpath r) (\<lambda>_. v))
           = Some (r, map (\<lambda>n. (n, v)) (param_names (rpath r)))"
  using assms by (auto simp: users_router_def)

lemma users_router_routes_reachable_witness:
  "dispatch users_router DELETE [''7'', ''carrier''] =
     Some (\<lparr>rmethod = DELETE, rpath = [Param ''id'', Lit ''carrier''],
              rchain = [AuthenticationJwt, ControllerHandler Delete]\<rparr>, [(''id'', ''7'')])"
  using users_router_routes_reachable [of "\<lparr>rmethod = DELETE, rpath = [Param ''id'', Lit ''carrier''],
              rchain = [AuthenticationJwt, ControllerHandler Delete]\<rparr>" "''7''"]
  by (simp add: users_router_def)

text \<open>
  C11. \<open>DELETE /:id/account\<close> and \<open>DELETE /:id/carrier\<close> run the same chain, ending in the
  same controller method \<open>usersController.delete\<close>, with the same parameters: the router
  does not tell deleting the carrier profile from deleting the account.
\<close>

lemma delete_routes_same_handler:
  "u \<noteq> [] \<Longrightarrow>
   map_option (\<lambda>(r, ps). (rchain r, ps)) (dispatch users_router DELETE [u, ''account''])
     = Some ([AuthenticationJwt, ControllerHandler Delete], [(''id'', u)])
   \<and> map_option (\<lambda>(r, ps). (rchain r, ps)) (dispatch users_router DELETE [u, ''carrier''])
     = Some ([AuthenticationJwt, ControllerHandler Delete], [(''id'', u)])"
  by (simp add: users_router_def)

lemma delete_routes_same_handler_witness:
  "map_option (\<lambda>(r, ps). (rchain r, ps)) (dispatch users_router DELETE [''2'', ''carrier''])
     = Some ([AuthenticationJwt, ControllerHandler Delete], [(''id'', ''2'')])"
  using delete_routes_same_handler [of "''2''"] by simp

end
