(* ===== verification/Controller.thy ===== *)
theory Controller
  imports SpecMappers Guard Router
begin

text \<open>
  The users controller and \<open>controllerHandler\<close> (\<open>controllers/api/usersController\<close>,
  \<open>controllers/helpers/controllerHandler\<close>): bound by the users router but not in the
  repository's sources, so modelled from spec 4.6 and 7. An \<open>:id\<close>-scoped handler reads
  \<open>req.params.id\<close>, applies the ownership guard with the identity \<open>authJwt\<close> attached
  to the request, and only then calls its mapper; a mapper's not-found and conflict
  surface unchanged, a storage error becomes a generic internal failure. The account routes
  call the account mapper of the sources (\<open>findAccountByUserId\<close>, \<open>updateAccount\<close>);
  \<open>delete\<close> is the generic \<open>CoreDataMapper\<close> delete on the controller's table
  \<open>users\<close>, keyed by \<open>req.params.id\<close>. The environment of a request (signer, clock,
  token lifetime, password hash, body validator, the id the database gives a new user) is a
  record of parameters. An error the controller does not know (such as the \<open>TypeError\<close>
  \<open>updateAccount\<close> throws) reaches \<open>controllerHandler\<close> as a thrown error and is
  answered as an internal failure.
\<close>

record 's config =
  cfg_signer :: "identity \<Rightarrow> nat \<Rightarrow> 's"
  cfg_now :: nat
  cfg_ttl :: nat
  cfg_hash :: "string \<Rightarrow> string"
  cfg_valid :: "schema \<Rightarrow> jsobj \<Rightarrow> bool"
  cfg_serial :: "db \<Rightarrow> int"

datatype ctrl_error =
    CNotFound | CConflict | CForbidden authz_failure | CUnauthorized auth_failure | CDb sql_error | CThrown string

datatype 's payload = PRow row | PRowOpt "row option" | PRows "row list" | PToken "'s jwt" | PDeleted

text \<open>The outcomes of spec 6, which the HTTP layer maps to status codes.\<close>

datatype 's outcome =
    Success "'s payload" | NotFound | Conflict | AuthenticationFailure auth_failure
  | AuthorizationFailure authz_failure | ValidationFailure | InternalError

text \<open>
  \<open>req.params.id\<close> as the spec's target user id (spec 4.2). The controller is not in the
  repository; the model reads the parameter as a non-empty string of decimal digits and
  treats any other text as an unknown user.
\<close>

definition parse_id :: "string \<Rightarrow> int option" where
  "parse_id s =
     (if s \<noteq> [] \<and> set s \<subseteq> set ''0123456789''
      then Some (foldl (\<lambda>acc c. 10 * acc + (int (of_char c) - 48)) 0 s) else None)"

text \<open>The guard step of an \<open>:id\<close>-scoped handler, before its mapper call \<open>k\<close>.\<close>

definition guarded ::
  "(string \<times> string) list \<Rightarrow> identity option \<Rightarrow> (int \<Rightarrow> ctrl_error + 'a) \<Rightarrow> ctrl_error + 'a" where
  "guarded ps u k =
     (case u of
        None \<Rightarrow> Inl (CUnauthorized MissingCredential)
      | Some ident \<Rightarrow>
          (case map_of ps ''id'' of
             None \<Rightarrow> Inl CNotFound
           | Some s \<Rightarrow>
               (case parse_id s of
                  None \<Rightarrow> Inl CNotFound
                | Some target \<Rightarrow>
                    (case authorize ident target of
                       Deny f \<Rightarrow> Inl (CForbidden f)
                     | Allow \<Rightarrow> k target))))"

definition db_err :: "sql_error + 'a \<Rightarrow> ctrl_error + 'a" where
  "db_err m = (case m of Inl e \<Rightarrow> Inl (CDb e) | Inr a \<Rightarrow> Inr a)"

definition found :: "db \<Rightarrow> sql_error + row option \<Rightarrow> ctrl_error + ('s payload \<times> db)" where
  "found d m = (case m of Inl e \<Rightarrow> Inl (CDb e) | Inr None \<Rightarrow> Inl CNotFound
                | Inr (Some r) \<Rightarrow> Inr (PRow r, d))"

definition updated :: "mapper_error + (db \<times> row option) \<Rightarrow> ctrl_error + ('s payload \<times> db)" where
  "updated m = (case m of Inl (DbError e) \<Rightarrow> Inl (CDb e) | Inl (AccountNotFound _) \<Rightarrow> Inl CNotFound
                | Inl (TypeError msg) \<Rightarrow> Inl (CThrown msg)
                | Inr (d', ro) \<Rightarrow> Inr (PRowOpt ro, d'))"

fun run_handler ::
  "'s config \<Rightarrow> handler \<Rightarrow> (string \<times> string) list \<Rightarrow> jsobj \<Rightarrow> identity option \<Rightarrow> db \<Rightarrow>
   ctrl_error + ('s payload \<times> db)" where
  "run_handler cfg FindAll ps body u d =
     sbind (db_err (findAll users_tableName d)) (\<lambda>rows. Inr (PRows rows, d))"
| "run_handler cfg LoginAction ps body u d =
     (case authenticate (cfg_signer cfg) (cfg_hash cfg) (cfg_ttl cfg) (cfg_now cfg) d
             (js_get body ''email'') (case js_get body ''password'' of JStr p \<Rightarrow> p | _ \<Rightarrow> []) of
        Inl f \<Rightarrow> Inl (CUnauthorized f)
      | Inr t \<Rightarrow> Inr (PToken t, d))"
| "run_handler cfg CreateSecureUser ps body u d =
     (case createSecureUser (cfg_hash cfg) (cfg_serial cfg d) d body of
        Inl DuplicateEmail \<Rightarrow> Inl CConflict
      | Inl (UserDbError e) \<Rightarrow> Inl (CDb e)
      | Inr (d', r) \<Rightarrow> Inr (PRow r, d'))"
| "run_handler cfg FindByPk ps body u d =
     guarded ps u (\<lambda>t. found d (findByPk users_tableName d (JNum t)))"
| "run_handler cfg FindAccountByUserId ps body u d =
     guarded ps u (\<lambda>t. found d (sbind (findAccountByUserId d (JNum t)) (\<lambda>a. Inr (js_present a))))"
| "run_handler cfg UpdateUserById ps body u d =
     guarded ps u (\<lambda>t. updated (updateAccount d (JNum t) body))"
| "run_handler cfg Delete ps body u d =
     guarded ps u (\<lambda>t. case deleteByPk users_tableName d (JNum t) of
                         Inl e \<Rightarrow> Inl (CDb e)
                       | Inr (d', False) \<Rightarrow> Inl CNotFound
                       | Inr (d', True) \<Rightarrow> Inr (PDeleted, d'))"
| "run_handler cfg FindCarrierByUserId ps body u d =
     guarded ps u (\<lambda>t. found d (findCarrierByUserId d (JNum t)))"
| "run_handler cfg UpdateCarrierById ps body u d =
     guarded ps u (\<lambda>t. updated (updateCarrier d (JNum t) body))"

text \<open>
  \<open>controllerHandler(fn)\<close>: runs the controller method and turns its result or its thrown
  error into the response; the database is changed only by a successful method.
\<close>

definition controllerHandler :: "db \<Rightarrow> ctrl_error + ('s payload \<times> db) \<Rightarrow> 's outcome \<times> db" where
  "controllerHandler d res =
     (case res of
        Inr (p, d') \<Rightarrow> (Success p, d')
      | Inl CNotFound \<Rightarrow> (NotFound, d)
      | Inl CConflict \<Rightarrow> (Conflict, d)
      | Inl (CForbidden f) \<Rightarrow> (AuthorizationFailure f, d)
      | Inl (CUnauthorized f) \<Rightarrow> (AuthenticationFailure f, d)
      | Inl (CDb e) \<Rightarrow> (InternalError, d)
      | Inl (CThrown msg) \<Rightarrow> (InternalError, d))"

end
