(* ===== verification/Pipeline.thy ===== *)
theory Pipeline
  imports Controller
begin

text \<open>
  The request pipeline of the users router: Express dispatches the request to the first
  matching route of \<open>users_router\<close> and runs its middleware chain in order.
  \<open>authenticationJwt\<close> resolves the bearer credential and attaches the identity or answers
  401; \<open>validate(schema, 'body')\<close> answers 400 for a body its schema rejects; the
  controller method, wrapped by \<open>controllerHandler\<close>, ends the chain. Two views of the
  same execution: the function \<open>run_chain\<close>, and the stage machine \<open>pstep\<close> of spec 4.6
  (a running stage holds the rest of the chain, the identity attached so far and the
  database; a finished stage holds the outcome); the two agree (\<open>run_chain_iff_pstep\<close>).
\<close>

record 's request =
  req_method :: http_method
  req_path :: "string list"
  req_auth :: "'s credential option"
  req_body :: jsobj

fun run_chain ::
  "'s config \<Rightarrow> middleware list \<Rightarrow> (string \<times> string) list \<Rightarrow> 's request \<Rightarrow> identity option \<Rightarrow> db \<Rightarrow>
   's outcome \<times> db" where
  "run_chain cfg [] ps rq u d = (NotFound, d)"
| "run_chain cfg (AuthenticationJwt # ms) ps rq u d =
     (case resolve (cfg_signer cfg) (cfg_now cfg) (req_auth rq) of
        Inl f \<Rightarrow> (AuthenticationFailure f, d)
      | Inr ident \<Rightarrow> run_chain cfg ms ps rq (Some ident) d)"
| "run_chain cfg (Validate sc src # ms) ps rq u d =
     (if cfg_valid cfg sc (req_body rq) then run_chain cfg ms ps rq u d else (ValidationFailure, d))"
| "run_chain cfg (ControllerHandler h # ms) ps rq u d =
     controllerHandler d (run_handler cfg h ps (req_body rq) u d)"

text \<open>A request to the users router: no matching route is Express's 404.\<close>

definition handle_users :: "'s config \<Rightarrow> 's request \<Rightarrow> db \<Rightarrow> 's outcome \<times> db" where
  "handle_users cfg rq d =
     (case dispatch users_router (req_method rq) (req_path rq) of
        None \<Rightarrow> (NotFound, d)
      | Some (r, ps) \<Rightarrow> run_chain cfg (rchain r) ps rq None d)"

section \<open>The stage machine\<close>

datatype 's pstage = Running "middleware list" "identity option" db | Done "'s outcome" db

inductive pstep :: "'s config \<Rightarrow> (string \<times> string) list \<Rightarrow> 's request \<Rightarrow> 's pstage \<Rightarrow> 's pstage \<Rightarrow> bool"
  for cfg ps rq where
  auth_ok: "resolve (cfg_signer cfg) (cfg_now cfg) (req_auth rq) = Inr ident \<Longrightarrow>
    pstep cfg ps rq (Running (AuthenticationJwt # ms) u d) (Running ms (Some ident) d)"
| auth_fail: "resolve (cfg_signer cfg) (cfg_now cfg) (req_auth rq) = Inl f \<Longrightarrow>
    pstep cfg ps rq (Running (AuthenticationJwt # ms) u d) (Done (AuthenticationFailure f) d)"
| valid_ok: "cfg_valid cfg sc (req_body rq) \<Longrightarrow>
    pstep cfg ps rq (Running (Validate sc src # ms) u d) (Running ms u d)"
| valid_fail: "\<not> cfg_valid cfg sc (req_body rq) \<Longrightarrow>
    pstep cfg ps rq (Running (Validate sc src # ms) u d) (Done ValidationFailure d)"
| execute: "controllerHandler d (run_handler cfg h ps (req_body rq) u d) = (out, d') \<Longrightarrow>
    pstep cfg ps rq (Running (ControllerHandler h # ms) u d) (Done out d')"
| fall_through: "pstep cfg ps rq (Running [] u d) (Done NotFound d)"

inductive_cases pstep_DoneE [elim!]: "pstep cfg ps rq (Done out d) s"
inductive_cases pstep_NilE [elim!]: "pstep cfg ps rq (Running [] u d) s"
inductive_cases pstep_AuthE [elim!]: "pstep cfg ps rq (Running (AuthenticationJwt # ms) u d) s"
inductive_cases pstep_ValidE [elim!]: "pstep cfg ps rq (Running (Validate sc src # ms) u d) s"
inductive_cases pstep_HandlerE [elim!]: "pstep cfg ps rq (Running (ControllerHandler h # ms) u d) s"

section \<open>Examples\<close>

fun guarded_handler :: "handler \<Rightarrow> bool" where
  "guarded_handler FindAll = False"
| "guarded_handler LoginAction = False"
| "guarded_handler CreateSecureUser = False"
| "guarded_handler _ = True"

definition ex_cfg :: "(int \<times> nat) config" where
  "ex_cfg = \<lparr>cfg_signer = toy_signer, cfg_now = 5, cfg_ttl = 100, cfg_hash = (\<lambda>s. ''h:'' @ s),
             cfg_valid = (\<lambda>sc body. True), cfg_serial = (\<lambda>d. 1)\<rparr>"

definition ex_user :: "int \<Rightarrow> string \<Rightarrow> row" where
  "ex_user n r = [''id'' \<mapsto> JNum n, ''email'' \<mapsto> JStr ''e'', ''password'' \<mapsto> JStr ''h:pw'', ''role'' \<mapsto> JStr r,
                  ''active'' \<mapsto> JBool True]"

definition ex_users_db :: db where
  "ex_users_db = [''users'' \<mapsto> \<lparr>tcols = [''id'', ''email'', ''password'', ''role'', ''active''],
                                trows = [ex_user 1 ''customer'', ex_user 2 ''customer'', ex_user 3 ''admin'']\<rparr>]"

definition ex_req :: "http_method \<Rightarrow> string list \<Rightarrow> identity \<Rightarrow> (int \<times> nat) request" where
  "ex_req m p ident = \<lparr>req_method = m, req_path = p,
     req_auth = Some (Bearer (issue toy_signer 100 0 ident)), req_body = Map.empty\<rparr>"

text \<open>An unauthenticated \<open>POST /users/<p>\<close> with a body.\<close>

definition reg_req :: "string \<Rightarrow> jsobj \<Rightarrow> (int \<times> nat) request" where
  "reg_req p body = \<lparr>req_method = POST, req_path = [p], req_auth = None, req_body = body\<rparr>"

section \<open>Lemmas\<close>

text \<open>The example requests carry a token that resolves to their identity.\<close>

lemma ex_resolve: "resolve (cfg_signer ex_cfg) (cfg_now ex_cfg) (req_auth (ex_req m p ident)) = Inr ident"
  by (simp add: ex_cfg_def ex_req_def resolve_def issue_def)

lemma pstep_deterministic: "pstep cfg ps rq s t \<Longrightarrow> pstep cfg ps rq s t' \<Longrightarrow> t' = t"
  by (induction rule: pstep.induct) auto

lemma run_chain_pstep:
  "(pstep cfg ps rq)\<^sup>*\<^sup>* (Running ms u d) (Done (fst (run_chain cfg ms ps rq u d)) (snd (run_chain cfg ms ps rq u d)))"
proof (induction cfg ms ps rq u d rule: run_chain.induct)
  case (1 cfg ps rq u d)
  then show ?case by (auto intro: pstep.fall_through)
next
  case (2 cfg ms ps rq u d)
  show ?case
  proof (cases "resolve (cfg_signer cfg) (cfg_now cfg) (req_auth rq)")
    case (Inl f)
    then show ?thesis by (auto intro: pstep.auth_fail)
  next
    case (Inr i)
    with "2" show ?thesis by (auto intro: converse_rtranclp_into_rtranclp pstep.auth_ok)
  qed
next
  case (3 cfg sc src ms ps rq u d)
  then show ?case by (auto intro: converse_rtranclp_into_rtranclp pstep.valid_ok pstep.valid_fail)
next
  case (4 cfg h ms ps rq u d)
  show ?case by (intro r_into_rtranclp pstep.execute) simp
qed

lemma star_Done_unique:
  assumes "(pstep cfg ps rq)\<^sup>*\<^sup>* s (Done o1 d1)" and "(pstep cfg ps rq)\<^sup>*\<^sup>* s (Done o2 d2)"
  shows "o1 = o2 \<and> d1 = d2"
  using assms
proof (induction rule: converse_rtranclp_induct)
  case base
  then show ?case by (auto elim: converse_rtranclpE)
next
  case (step s s')
  from step.prems obtain s'' where "pstep cfg ps rq s s''" "(pstep cfg ps rq)\<^sup>*\<^sup>* s'' (Done o2 d2)"
    using step.hyps(1) by (auto elim: converse_rtranclpE)
  with step show ?case using pstep_deterministic by metis
qed

lemma guarded_Inr:
  "guarded ps u k = Inr x \<Longrightarrow>
   \<exists>i s t. u = Some i \<and> map_of ps ''id'' = Some s \<and> parse_id s = Some t \<and> authorize i t = Allow \<and> k t = Inr x"
  by (auto simp: guarded_def split: option.splits decision.splits)

lemma run_handler_guarded:
  "guarded_handler h \<Longrightarrow> \<exists>k. run_handler cfg h ps body u d = guarded ps u k"
  by (cases h) auto

lemma controllerHandler_changes:
  "controllerHandler d res = (out, d') \<Longrightarrow> d' \<noteq> d \<Longrightarrow> \<exists>p. res = Inr (p, d')"
  by (auto simp: controllerHandler_def split: sum.splits ctrl_error.splits)

lemma users_router_id_scoped_chains:
  "\<forall>r \<in> set users_router. id_scoped r \<longrightarrow>
     (\<exists>h. guarded_handler h \<and> (rchain r = [AuthenticationJwt, ControllerHandler h] \<or>
            rchain r = [AuthenticationJwt, Validate UsersPut ''body'', ControllerHandler h]))"
  by (simp add: users_router_def id_scoped_def)

lemma run_chain_req:
  "req_auth rq = req_auth rq' \<Longrightarrow> req_body rq = req_body rq' \<Longrightarrow>
   run_chain cfg ms ps rq u d = run_chain cfg ms ps rq' u d"
  by (induction cfg ms ps rq u d rule: run_chain.induct) (simp_all split: sum.splits)

lemma dispatch_register:
  "dispatch users_router POST [''register''] = Some (\<lparr>rmethod = POST, rpath = [Lit ''register''],
     rchain = [Validate UsersPost ''body'', ControllerHandler CreateSecureUser]\<rparr>, [])"
  by (simp add: users_router_def)

lemma handle_users_register:
  "req_method rq = POST \<Longrightarrow> req_path rq = [''register''] \<Longrightarrow>
   handle_users cfg rq d =
     (if cfg_valid cfg UsersPost (req_body rq)
      then controllerHandler d (run_handler cfg CreateSecureUser [] (req_body rq) None d)
      else (ValidationFailure, d))"
  by (simp add: handle_users_def dispatch_register)

text \<open>
  The middleware chain, run as a
  function, ends with outcome \<open>out\<close> and database \<open>d'\<close> exactly when the stage
  machine \<open>pstep\<close> goes from the running stage to the finished stage \<open>Done out d'\<close>.
\<close>

lemma run_chain_iff_pstep:
  "run_chain cfg ms ps rq u d = (out, d') \<longleftrightarrow> (pstep cfg ps rq)\<^sup>*\<^sup>* (Running ms u d) (Done out d')"
  using run_chain_pstep [of cfg ps rq ms u d] star_Done_unique
  by (metis prod.collapse fst_conv snd_conv)

section \<open>Properties\<close>

text \<open>
  C12. A request on an \<open>:id\<close>-scoped route of the users router whose credential does not
  resolve ends with that authentication failure and leaves the database unchanged.
\<close>

lemma handle_users_unauthenticated:
  assumes "dispatch users_router (req_method rq) (req_path rq) = Some (r, ps)" and "ps \<noteq> []"
    and "resolve (cfg_signer cfg) (cfg_now cfg) (req_auth rq) = Inl f"
  shows "handle_users cfg rq d = (AuthenticationFailure f, d)"
proof -
  from dispatch_id_scoped [OF assms(1,2)] users_router_id_scoped obtain rest
    where "rchain r = AuthenticationJwt # rest"
    by blast
  with assms show ?thesis by (simp add: handle_users_def)
qed

lemma handle_users_unauthenticated_witness:
  "handle_users ex_cfg (ex_req DELETE [''2'', ''account''] \<lparr>uid = 3, urole = Admin\<rparr>\<lparr>req_auth := None\<rparr>) ex_users_db
     = (AuthenticationFailure MissingCredential, ex_users_db)"
  by (rule handle_users_unauthenticated [where r = "\<lparr>rmethod = DELETE, rpath = [Param ''id'', Lit ''account''],
        rchain = [AuthenticationJwt, ControllerHandler Delete]\<rparr>" and ps = "[(''id'', ''2'')]"])
     (simp_all add: ex_req_def users_router_def resolve_def)

text \<open>
  C13. No side effect without authorisation: a request on an \<open>:id\<close>-scoped route that
  changes the database carried a credential resolving to an identity that the ownership
  guard allows on the route's \<open>id\<close>.
\<close>

lemma handle_users_effect_authorized:
  assumes disp: "dispatch users_router (req_method rq) (req_path rq) = Some (r, ps)" and "ps \<noteq> []"
    and res: "handle_users cfg rq d = (out, d')" and ch: "d' \<noteq> d"
  shows "\<exists>i s t. resolve (cfg_signer cfg) (cfg_now cfg) (req_auth rq) = Inr i \<and>
           map_of ps ''id'' = Some s \<and> parse_id s = Some t \<and> authorize i t = Allow"
proof -
  from dispatch_id_scoped [OF disp \<open>ps \<noteq> []\<close>] users_router_id_scoped_chains obtain h where
    gh: "guarded_handler h" and chain: "rchain r = [AuthenticationJwt, ControllerHandler h] \<or>
            rchain r = [AuthenticationJwt, Validate UsersPut ''body'', ControllerHandler h]"
    by blast
  from disp res have rc: "run_chain cfg (rchain r) ps rq None d = (out, d')" by (simp add: handle_users_def)
  obtain i where i: "resolve (cfg_signer cfg) (cfg_now cfg) (req_auth rq) = Inr i"
    using rc ch chain by (cases "resolve (cfg_signer cfg) (cfg_now cfg) (req_auth rq)") auto
  with rc ch chain have "controllerHandler d (run_handler cfg h ps (req_body rq) (Some i) d) = (out, d')"
    by (auto split: if_splits)
  with ch obtain p where "run_handler cfg h ps (req_body rq) (Some i) d = Inr (p, d')"
    by (blast dest: controllerHandler_changes)
  moreover from gh obtain k where "run_handler cfg h ps (req_body rq) (Some i) d = guarded ps (Some i) k"
    by (blast dest: run_handler_guarded)
  ultimately show ?thesis using i by (auto dest!: guarded_Inr)
qed

lemma handle_users_effect_authorized_witness:
  "\<exists>i s t. resolve toy_signer 5 (req_auth (ex_req DELETE [''2'', ''account''] \<lparr>uid = 3, urole = Admin\<rparr>)) = Inr i \<and>
     map_of [(''id'', ''2'')] ''id'' = Some s \<and> parse_id s = Some t \<and> authorize i t = Allow"
proof -
  let ?rq = "ex_req DELETE [''2'', ''account''] \<lparr>uid = 3, urole = Admin\<rparr>"
  let ?d' = "[''users'' \<mapsto> \<lparr>tcols = [''id'', ''email'', ''password'', ''role'', ''active''],
                trows = [ex_user 1 ''customer'', (ex_user 2 ''customer'')(''active'' \<mapsto> JBool False),
                         ex_user 3 ''admin'']\<rparr>]"
  have disp: "dispatch users_router (req_method ?rq) (req_path ?rq) =
     Some (\<lparr>rmethod = DELETE, rpath = [Param ''id'', Lit ''account''],
        rchain = [AuthenticationJwt, ControllerHandler Delete]\<rparr>, [(''id'', ''2'')])"
    by (simp add: ex_req_def users_router_def)
  have res: "handle_users ex_cfg ?rq ex_users_db = (Success PDeleted, ?d')"
    by (simp add: handle_users_def ex_cfg_def ex_req_def users_router_def resolve_def issue_def toy_signer_def
      guarded_def parse_id_def authorize_def deleteByPk_def update_where_def check_cols_def set_cols_def
      sql_param_def users_tableName_def ex_users_db_def hits_def sql_eq_def cell_def ex_user_def controllerHandler_def)
  have ch: "?d' \<noteq> ex_users_db"
    by (auto simp: ex_users_db_def fun_eq_iff ex_user_def dest: fun_cong [where x = "''users''"])
  from handle_users_effect_authorized [OF disp _ res ch] show ?thesis by (simp add: ex_cfg_def)
qed

text \<open>
  C14. On \<open>PUT /users/:id/account\<close> the body validation runs before the controller's
  ownership guard: an authenticated caller with a body the schema rejects gets the
  validation failure, whoever owns the target.
\<close>

lemma handle_users_validation_first:
  assumes "u \<noteq> []" and "resolve (cfg_signer cfg) (cfg_now cfg) (req_auth rq) = Inr i"
    and "\<not> cfg_valid cfg UsersPut (req_body rq)"
  shows "handle_users cfg (rq\<lparr>req_method := PUT, req_path := [u, ''account'']\<rparr>) d = (ValidationFailure, d)"
  using assms by (simp add: handle_users_def users_router_def)

lemma handle_users_validation_first_witness:
  "handle_users (ex_cfg\<lparr>cfg_valid := (\<lambda>sc body. False)\<rparr>)
     (ex_req PUT [''2'', ''account''] \<lparr>uid = 1, urole = Customer\<rparr>) ex_users_db = (ValidationFailure, ex_users_db)"
  using handle_users_validation_first [of "''2''" "ex_cfg\<lparr>cfg_valid := (\<lambda>sc body. False)\<rparr>"
      "ex_req PUT [''2'', ''account''] \<lparr>uid = 1, urole = Customer\<rparr>" "\<lparr>uid = 1, urole = Customer\<rparr>" ex_users_db]
  by (simp add: ex_req_def ex_cfg_def resolve_def issue_def toy_signer_def)

text \<open>
  C15. \<open>POST /users/register\<close> with a valid body whose e-mail some stored user
  already has answers Conflict (DuplicateEmail) and leaves the database unchanged.
\<close>

lemma handle_users_register_duplicate:
  assumes "req_method rq = POST" and "req_path rq = [''register'']" and "cfg_valid cfg UsersPost (req_body rq)"
    and "d users_tableName = Some tb" and "''email'' \<in> set (tcols tb)"
    and "r \<in> set (trows tb)" and "hits ''email'' (js_get (req_body rq) ''email'') r"
  shows "handle_users cfg rq d = (Conflict, d)"
  using assms createSecureUser_duplicate [where d = d and tb = tb and data = "req_body rq", OF assms(4-7)]
  by (simp add: handle_users_register controllerHandler_def)

lemma handle_users_register_duplicate_witness:
  "handle_users ex_cfg (reg_req ''register'' (ex_user 1 ''customer'')) ex_users_db = (Conflict, ex_users_db)"
  by (rule handle_users_register_duplicate [where tb = "the (ex_users_db users_tableName)" and r = "ex_user 1 ''customer''"])
     (simp_all add: reg_req_def ex_cfg_def ex_users_db_def users_tableName_def ex_user_def hits_def sql_eq_def cell_def)

text \<open>
  C16. \<open>POST /users/register\<close> with a valid body and a fresh e-mail succeeds by
  appending exactly one row to \<open>users\<close>, whose password column holds the hash of the
  submitted password, not the password, and keeps e-mails unique.
\<close>

lemma handle_users_register_secure:
  assumes "req_method rq = POST" and "req_path rq = [''register'']" and "cfg_valid cfg UsersPost (req_body rq)"
    and tb: "d users_tableName = Some tb"
    and cols: "set (''id'' # register_fields) \<subseteq> set (tcols tb)"
    and fresh: "\<forall>r \<in> set (trows tb). \<not> hits ''email'' (js_get (req_body rq) ''email'') r"
    and pw: "js_get (req_body rq) ''password'' = JStr pw"
  shows "\<exists>d' r tb'. handle_users cfg rq d = (Success (PRow r), d') \<and> d' users_tableName = Some tb' \<and>
           trows tb' = trows tb @ [r] \<and> cell r ''password'' = JStr (cfg_hash cfg pw) \<and>
           (unique_col ''email'' tb \<longrightarrow> unique_col ''email'' tb')"
proof -
  obtain d' r tb' where c: "createSecureUser (cfg_hash cfg) (cfg_serial cfg d) d (req_body rq) = Inr (d', r)"
    and rest: "d' users_tableName = Some tb'" "trows tb' = trows tb @ [r]"
       "cell r ''password'' = JStr (cfg_hash cfg pw)" "unique_col ''email'' tb \<longrightarrow> unique_col ''email'' tb'"
    using createSecureUser_secure [where hash = "cfg_hash cfg" and d = d and tb = tb and data = "req_body rq", OF tb cols fresh pw] by blast
  have "handle_users cfg rq d = (Success (PRow r), d')"
    using assms(1-3) c by (simp add: handle_users_register controllerHandler_def)
  with rest show ?thesis by blast
qed

lemma handle_users_register_secure_witness:
  "\<exists>d' r tb'. handle_users ex_cfg (reg_req ''register'' reg_data) reg_db = (Success (PRow r), d') \<and>
     d' users_tableName = Some tb' \<and> trows tb' = [r] \<and> cell r ''password'' = JStr ''h:pw''"
proof -
  have tb: "reg_db users_tableName = Some \<lparr>tcols = ''id'' # register_fields @ [''role''], trows = []\<rparr>"
    by (simp add: reg_db_def users_tableName_def)
  have pw: "js_get (req_body (reg_req ''register'' reg_data)) ''password'' = JStr ''pw''"
    by (simp add: reg_req_def reg_data_def js_get_def)
  show ?thesis
    using handle_users_register_secure [where rq = "reg_req ''register'' reg_data" and cfg = ex_cfg and d = reg_db
        and tb = "\<lparr>tcols = ''id'' # register_fields @ [''role''], trows = []\<rparr>" and pw = "''pw''", OF _ _ _ tb _ _ pw]
    by (simp add: reg_req_def ex_cfg_def) blast
qed

end
