(* ===== verification/Lifecycle.thy ===== *)
theory Lifecycle
  imports Pipeline
begin

text \<open>
  The life cycle of a request in the users router, on the stage machine \<open>pstep\<close> of
  \<open>Pipeline\<close>: which stages are final, why every run stops, and why it always stops in a
  finished stage. The routes of \<open>users.js\<close> all have the shape the stage machine needs:
  middlewares, then exactly one \<open>controllerHandler\<close> last (\<open>wf_chain\<close>); on such a chain
  the fall-through stage (Express's \<open>next()\<close> past the last handler) is never reached.
\<close>

text \<open>A stage with no successor.\<close>

definition final :: "'s config \<Rightarrow> (string \<times> string) list \<Rightarrow> 's request \<Rightarrow> 's pstage \<Rightarrow> bool" where
  "final cfg ps rq s \<longleftrightarrow> \<not> (\<exists>t. pstep cfg ps rq s t)"

text \<open>The measure every step decreases: the middlewares left to run, plus one.\<close>

fun stage_size :: "'s pstage \<Rightarrow> nat" where
  "stage_size (Running ms u d) = Suc (length ms)"
| "stage_size (Done out d) = 0"

text \<open>A well-formed chain: middlewares, then one controller handler, last.\<close>

fun wf_chain :: "middleware list \<Rightarrow> bool" where
  "wf_chain [] = False"
| "wf_chain [ControllerHandler h] = True"
| "wf_chain (ControllerHandler h # m # ms) = False"
| "wf_chain (AuthenticationJwt # ms) = wf_chain ms"
| "wf_chain (Validate sc src # ms) = wf_chain ms"

section \<open>Lemmas\<close>

lemma pstep_size: "pstep cfg ps rq s t \<Longrightarrow> stage_size t < stage_size s"
  by (induction rule: pstep.induct) simp_all

lemma pstep_Running_ex: "\<exists>t. pstep cfg ps rq (Running ms u d) t"
proof (cases ms)
  case Nil
  then show ?thesis by (blast intro: pstep.fall_through)
next
  case (Cons m ms')
  then show ?thesis
  proof (cases m)
    case AuthenticationJwt
    with Cons show ?thesis
      by (cases "resolve (cfg_signer cfg) (cfg_now cfg) (req_auth rq)") (blast intro: pstep.auth_ok pstep.auth_fail)+
  next
    case (Validate sc src)
    with Cons show ?thesis
      by (cases "cfg_valid cfg sc (req_body rq)") (blast intro: pstep.valid_ok pstep.valid_fail)+
  next
    case (ControllerHandler h)
    with Cons show ?thesis by (metis pstep.execute surj_pair)
  qed
qed

lemma final_iff_Done: "final cfg ps rq s \<longleftrightarrow> (\<exists>out d. s = Done out d)"
  by (cases s) (auto simp: final_def pstep_Running_ex)

lemma wf_chain_star:
  "(pstep cfg ps rq)\<^sup>*\<^sup>* (Running ms u d) s \<Longrightarrow> wf_chain ms \<Longrightarrow>
   (\<exists>ms' u' d'. s = Running ms' u' d' \<and> wf_chain ms') \<or> (\<exists>out d'. s = Done out d')"
  by (induction rule: rtranclp_induct) (auto elim!: pstep.cases)

lemma users_router_wf: "\<forall>r \<in> set users_router. wf_chain (rchain r)"
  by (simp add: users_router_def)

text \<open>
  Termination: the stage machine has no infinite run; every step strictly decreases
  the number of middlewares left to run.
\<close>

lemma pstep_terminates: "wfp (\<lambda>t s. pstep cfg ps rq s t)"
proof -
  have "{(t, s). pstep cfg ps rq s t} \<subseteq> measure stage_size"
    by (auto dest: pstep_size)
  then show ?thesis unfolding wfp_def by (rule wf_subset [OF wf_measure])
qed

text \<open>
  Liveness: from every running stage the machine reaches a final stage, exactly one,
  and the final stages are exactly the finished ones (spec 5: a request completes to a
  terminal state).
\<close>

lemma pstep_live:
  "\<exists>s'. (pstep cfg ps rq)\<^sup>*\<^sup>* (Running ms u d) s' \<and> final cfg ps rq s' \<and>
        (\<forall>s''. (pstep cfg ps rq)\<^sup>*\<^sup>* (Running ms u d) s'' \<and> final cfg ps rq s'' \<longrightarrow> s'' = s')
   \<and> (\<forall>s. final cfg ps rq s \<longleftrightarrow> (\<exists>out d. s = Done out d))"
proof -
  obtain out d' where run: "run_chain cfg ms ps rq u d = (out, d')" by (rule prod.exhaust)
  then have reach: "(pstep cfg ps rq)\<^sup>*\<^sup>* (Running ms u d) (Done out d')"
    using run_chain_pstep [where cfg = cfg and ms = ms and ps = ps and rq = rq and u = u and d = d] by simp
  have "s'' = Done out d'"
    if "(pstep cfg ps rq)\<^sup>*\<^sup>* (Running ms u d) s''" and "final cfg ps rq s''" for s''
  proof -
    from that(2) obtain o2 d2 where "s'' = Done o2 d2" by (auto simp: final_iff_Done)
    with that(1) reach star_Done_unique show ?thesis by blast
  qed
  with reach show ?thesis by (auto simp: final_iff_Done)
qed

section \<open>Properties\<close>

text \<open>
  C21. Every route the users router dispatches to has a well-formed chain: authentication
  and validation middlewares, then exactly one controller handler, last.
\<close>

lemma dispatch_wf_chain:
  assumes "dispatch users_router m p = Some (r, ps)"
  shows "wf_chain (rchain r)"
  using users_router_wf dispatch_Some_in [OF assms] by blast

lemma dispatch_wf_chain_witness:
  "wf_chain [AuthenticationJwt, Validate UsersPut ''body'', ControllerHandler UpdateUserById]"
proof -
  have "dispatch users_router PUT [''7'', ''account''] =
          Some (\<lparr>rmethod = PUT, rpath = [Param ''id'', Lit ''account''],
                 rchain = [AuthenticationJwt, Validate UsersPut ''body'', ControllerHandler UpdateUserById]\<rparr>,
                [(''id'', ''7'')])"
    by (simp add: users_router_def)
  from dispatch_wf_chain [OF this] show ?thesis by simp
qed

text \<open>
  C22. No dispatched request falls through its chain: on the route the users router
  dispatches to, the stage with no middleware left (Express's 404 after the last handler)
  is unreachable, so every answer comes from a middleware or the controller.
\<close>

lemma handle_users_no_fall_through:
  assumes "dispatch users_router m p = Some (r, ps)"
    and "(pstep cfg ps rq)\<^sup>*\<^sup>* (Running (rchain r) None d) s"
  shows "\<not> (\<exists>u d'. s = Running [] u d')"
proof -
  have "wf_chain (rchain r)" using users_router_wf dispatch_Some_in [OF assms(1)] by blast
  from wf_chain_star [OF assms(2) this] show ?thesis by auto
qed

lemma handle_users_no_fall_through_witness:
  "\<not> (\<exists>u d'. Running [ControllerHandler FindByPk] (Some \<lparr>uid = 1, urole = Customer\<rparr>) ex_users_db
             = Running [] u d')"
proof -
  let ?rq = "ex_req GET [''1''] \<lparr>uid = 1, urole = Customer\<rparr>"
  have disp: "dispatch users_router GET [''1''] =
          Some (\<lparr>rmethod = GET, rpath = [Param ''id''], rchain = [AuthenticationJwt, ControllerHandler FindByPk]\<rparr>,
                [(''id'', ''1'')])"
    by (simp add: users_router_def)
  have "pstep ex_cfg [(''id'', ''1'')] ?rq (Running [AuthenticationJwt, ControllerHandler FindByPk] None ex_users_db)
          (Running [ControllerHandler FindByPk] (Some \<lparr>uid = 1, urole = Customer\<rparr>) ex_users_db)"
    by (rule pstep.auth_ok) (rule ex_resolve)
  then have "(pstep ex_cfg [(''id'', ''1'')] ?rq)\<^sup>*\<^sup>* (Running [AuthenticationJwt, ControllerHandler FindByPk] None ex_users_db)
          (Running [ControllerHandler FindByPk] (Some \<lparr>uid = 1, urole = Customer\<rparr>) ex_users_db)"
    by (rule r_into_rtranclp)
  from handle_users_no_fall_through [OF disp, simplified, OF this] show ?thesis by simp
qed

end
