(* ===== verification/UserRoutes.thy ===== *)
theory UserRoutes
  imports Pipeline
begin

text \<open>
  The account, profile and carrier routes of \<open>users.js\<close> end to end: a request goes
  through dispatch, \<open>authenticationJwt\<close>, the controller's guard and the mapper call, and
  the lemmas state the outcome and the database after it. They connect the router of the
  sources with the account mapper of the sources (the schema defect and the \<open>TypeError\<close>
  of \<open>accountDataMapper.js\<close> become observable responses) and with the spec-modelled
  mappers (soft deletion, carrier lookup).
\<close>

section \<open>Examples\<close>

text \<open>The users of \<open>ex_users_db\<close> and one carrier profile owned by user 1.\<close>

definition ex_carrier :: row where
  "ex_carrier = [''user_id'' \<mapsto> JNum 1, ''company'' \<mapsto> JStr ''Velo'']"

definition ex_carrier_db :: db where
  "ex_carrier_db = ex_users_db(''carriers'' \<mapsto> \<lparr>tcols = [''user_id'', ''company''], trows = [ex_carrier]\<rparr>)"

text \<open>A \<open>users\<close> table with exactly the columns of the \<open>User\<close> typedef.\<close>

definition typedef_db :: db where
  "typedef_db = [''users'' \<mapsto> \<lparr>tcols = user_typedef_columns, trows = []\<rparr>]"

section \<open>Lemmas\<close>

lemma parse_id_nonempty: "parse_id s = Some t \<Longrightarrow> s \<noteq> []"
  by (simp add: parse_id_def split: if_splits)

lemma guarded_Allow:
  "parse_id s = Some t \<Longrightarrow> authorize i t = Allow \<Longrightarrow> guarded [(''id'', s)] (Some i) k = k t"
  by (simp add: guarded_def)

lemma handle_users_owner:
  assumes auth: "resolve (cfg_signer cfg) (cfg_now cfg) (req_auth rq) = Inr i"
    and id: "parse_id s = Some t" and ok: "authorize i t = Allow"
  shows "req_method rq = GET \<Longrightarrow> req_path rq = [s] \<Longrightarrow>
           handle_users cfg rq d = controllerHandler d (found d (findByPk users_tableName d (JNum t)))"
    and "req_method rq = GET \<Longrightarrow> req_path rq = [s, ''account''] \<Longrightarrow>
           handle_users cfg rq d = controllerHandler d (found d (sbind (findAccountByUserId d (JNum t)) (\<lambda>a. Inr (js_present a))))"
    and "req_method rq = PUT \<Longrightarrow> req_path rq = [s, ''account''] \<Longrightarrow> cfg_valid cfg UsersPut (req_body rq) \<Longrightarrow>
           handle_users cfg rq d = controllerHandler d (updated (updateAccount d (JNum t) (req_body rq)))"
    and "req_method rq = GET \<Longrightarrow> req_path rq = [s, ''carrier''] \<Longrightarrow>
           handle_users cfg rq d = controllerHandler d (found d (findCarrierByUserId d (JNum t)))"
    and "req_method rq = DELETE \<Longrightarrow> req_path rq = [s, ''account''] \<or> req_path rq = [s, ''carrier''] \<Longrightarrow>
           handle_users cfg rq d = controllerHandler d (case deleteByPk users_tableName d (JNum t) of
                         Inl e \<Rightarrow> Inl (CDb e)
                       | Inr (d', False) \<Rightarrow> Inl CNotFound
                       | Inr (d', True) \<Rightarrow> Inr (PDeleted, d'))"
  using parse_id_nonempty [OF id] auth
  by (auto simp: handle_users_def users_router_def guarded_Allow [OF id ok])

lemma deleteByPk_marks:
  assumes "d t = Some tb" and "{''id'', ''active''} \<subseteq> set (tcols tb)"
    and "r \<in> set (trows tb)" and "hits ''id'' k r"
  shows "deleteByPk t d k =
    Inr (d(t \<mapsto> tb\<lparr>trows := map (\<lambda>r. if hits ''id'' k r then r(''active'' \<mapsto> JBool False) else r) (trows tb)\<rparr>), True)"
proof -
  from assms(3,4) have "filter (hits ''id'' k) (trows tb) \<noteq> []" by (auto simp: filter_empty_conv)
  with assms(1,2) show ?thesis
    by (simp add: deleteByPk_def update_where_ok set_cols_def sql_param_def cong: if_cong)
qed

section \<open>Properties\<close>

text \<open>
  C17. \<open>GET /users/:id/carrier\<close> by the owner (or an admin) returns the carrier row
  whose \<open>user_id\<close> is the id, when \<open>user_id\<close> is unique in \<open>carriers\<close>.
\<close>

lemma handle_users_get_carrier:
  assumes "resolve (cfg_signer cfg) (cfg_now cfg) (req_auth rq) = Inr i"
    and id: "parse_id s = Some t" and ok: "authorize i t = Allow"
    and "req_method rq = GET" and "req_path rq = [s, ''carrier'']"
    and tb: "d carrier_tableName = Some tb" and col: "''user_id'' \<in> set (tcols tb)"
    and uniq: "unique_col ''user_id'' tb" and r: "r \<in> set (trows tb)" and own: "cell r ''user_id'' = JNum t"
  shows "handle_users cfg rq d = (Success (PRow r), d)"
proof -
  have "hits ''user_id'' (JNum t) r" using own by (simp add: hits_iff)
  with uniq r have "filter (hits ''user_id'' (JNum t)) (trows tb) = [r]" by (rule unique_col_filter)
  with tb col have "findCarrierByUserId d (JNum t) = Inr (Some r)"
    by (simp add: findCarrierByUserId_def select_where_ok)
  with handle_users_owner(4) [OF assms(1) id ok] assms(4,5) show ?thesis
    by (simp add: found_def controllerHandler_def)
qed

lemma handle_users_get_carrier_witness:
  "handle_users ex_cfg (ex_req GET [''1'', ''carrier''] \<lparr>uid = 1, urole = Customer\<rparr>) ex_carrier_db
   = (Success (PRow ex_carrier), ex_carrier_db)"
  by (rule handle_users_get_carrier [OF ex_resolve, where s = "''1''" and t = 1
        and tb = "\<lparr>tcols = [''user_id'', ''company''], trows = [ex_carrier]\<rparr>"])
     (simp_all add: parse_id_def authorize_def ex_req_def ex_carrier_db_def carrier_tableName_def
        unique_col_def ex_carrier_def cell_def)

text \<open>
  C18. On the \<open>users\<close> table the \<open>User\<close> typedef documents (no \<open>user_id\<close> column),
  the authorized \<open>GET\<close> and \<open>PUT /users/:id/account\<close> both answer InternalError (HTTP 500)
  and change nothing: the mapper's SQL error reaches the client.
\<close>

lemma handle_users_typedef_schema:
  assumes "resolve (cfg_signer cfg) (cfg_now cfg) (req_auth rq) = Inr i"
    and id: "parse_id s = Some t" and ok: "authorize i t = Allow"
    and "req_path rq = [s, ''account'']"
    and "d users_tableName = Some tb" and "tcols tb = user_typedef_columns"
    and "req_method rq = GET \<or> (req_method rq = PUT \<and> cfg_valid cfg UsersPut (req_body rq))"
  shows "handle_users cfg rq d = (InternalError, d)"
proof -
  have "findAccountByUserId d (JNum t) = Inl (UndefinedColumn ''user_id'')"
    using assms(5,6) by (simp add: findAccountByUserId_def account_tableName_def users_tableName_def
        select_where_no_col user_typedef_columns_def)
  then show ?thesis
    using assms(7) handle_users_owner(2,3) [OF assms(1) id ok] assms(4)
    by (auto simp: found_def updated_def updateAccount_def controllerHandler_def)
qed

lemma handle_users_typedef_schema_witness:
  "handle_users ex_cfg (ex_req GET [''1'', ''account''] \<lparr>uid = 1, urole = Customer\<rparr>) typedef_db = (InternalError, typedef_db)"
  by (rule handle_users_typedef_schema [OF ex_resolve, where s = "''1''" and t = 1
        and tb = "\<lparr>tcols = user_typedef_columns, trows = []\<rparr>"])
     (simp_all add: parse_id_def authorize_def ex_req_def typedef_db_def users_tableName_def)

text \<open>
  C19. An authorized, valid \<open>PUT /users/:id/account\<close> for a user whose account row
  exists answers InternalError (HTTP 500) and leaves the database unchanged: the
  \<open>TypeError\<close> of \<open>account.updateFromData\<close> reaches \<open>controllerHandler\<close>, so no
  account can be updated through the router.
\<close>

lemma handle_users_put_account_type_error:
  assumes "resolve (cfg_signer cfg) (cfg_now cfg) (req_auth rq) = Inr i"
    and id: "parse_id s = Some t" and ok: "authorize i t = Allow"
    and "req_method rq = PUT" and "req_path rq = [s, ''account'']" and "cfg_valid cfg UsersPut (req_body rq)"
    and tb: "d account_tableName = Some tb" and col: "''user_id'' \<in> set (tcols tb)"
    and r: "r \<in> set (trows tb)" and own: "cell r ''user_id'' = JNum t"
  shows "handle_users cfg rq d = (InternalError, d)"
proof -
  have "hits ''user_id'' (JNum t) r" using own by (simp add: hits_iff)
  from updateAccount_existing [of d tb r "JNum t", OF tb col r this]
  have "updateAccount d (JNum t) (req_body rq) = Inl (TypeError ''account.updateFromData is not a function'')" .
  with handle_users_owner(3) [OF assms(1) id ok] assms(4-6) show ?thesis
    by (simp add: updated_def controllerHandler_def)
qed

lemma handle_users_put_account_type_error_witness:
  "handle_users ex_cfg (ex_req PUT [''1'', ''account''] \<lparr>uid = 1, urole = Customer\<rparr>) ex_db = (InternalError, ex_db)"
  by (rule handle_users_put_account_type_error [OF ex_resolve, where s = "''1''" and t = 1 and tb = ex_tb and r = ex_row])
     (simp_all add: parse_id_def authorize_def ex_req_def ex_cfg_def ex_db_def account_tableName_def ex_tb_def
        ex_row_def cell_def)

text \<open>
  C20. Deletion is soft (spec 3): an allowed \<open>DELETE /users/:id/account\<close>, and equally
  \<open>DELETE /users/:id/carrier\<close>, answers Deleted and marks the user's row of \<open>users\<close>
  inactive; every row is kept and no other table changes, so the carrier route deletes no
  carrier profile.
\<close>

lemma handle_users_delete_deactivates:
  assumes "resolve (cfg_signer cfg) (cfg_now cfg) (req_auth rq) = Inr i"
    and id: "parse_id s = Some t" and ok: "authorize i t = Allow"
    and "req_method rq = DELETE" and "req_path rq = [s, ''account''] \<or> req_path rq = [s, ''carrier'']"
    and tb: "d users_tableName = Some tb" and cols: "{''id'', ''active''} \<subseteq> set (tcols tb)"
    and r: "r \<in> set (trows tb)" and own: "cell r ''id'' = JNum t"
  shows "handle_users cfg rq d =
           (Success PDeleted,
            d(users_tableName \<mapsto> tb\<lparr>trows := map (\<lambda>r. if cell r ''id'' = JNum t then r(''active'' \<mapsto> JBool False) else r)
                                                (trows tb)\<rparr>))"
proof -
  have "hits ''id'' (JNum t) r" using own by (simp add: hits_iff)
  from deleteByPk_marks [of d users_tableName tb r "JNum t", OF tb cols r this] handle_users_owner(5) [OF assms(1) id ok] assms(4,5)
  show ?thesis by (simp add: controllerHandler_def hits_iff)
qed

lemma handle_users_delete_deactivates_witness:
  "handle_users ex_cfg (ex_req DELETE [''2'', ''carrier''] \<lparr>uid = 3, urole = Admin\<rparr>) ex_carrier_db =
     (Success PDeleted,
      ex_carrier_db(''users'' \<mapsto> \<lparr>tcols = [''id'', ''email'', ''password'', ''role'', ''active''],
        trows = [ex_user 1 ''customer'', (ex_user 2 ''customer'')(''active'' \<mapsto> JBool False), ex_user 3 ''admin'']\<rparr>))"
  using handle_users_delete_deactivates [OF ex_resolve, where s = "''2''" and t = 2 and d = ex_carrier_db
      and tb = "the (ex_users_db ''users'')" and r = "ex_user 2 ''customer''"]
  by (simp add: parse_id_def authorize_def ex_req_def ex_carrier_db_def ex_users_db_def users_tableName_def
      ex_user_def cell_def)

end
