(* ===== verification/App.thy ===== *)
theory App
  imports Router
begin

text \<open>
  The two remaining source files. \<open>src/app/controllers/api/index.js\<close>: the API
  controller's \<open>getHome\<close> answers the root discovery request with the documentation URL,
  built by a template literal from the request's protocol, its \<open>Host\<close> header and the
  environment variable \<open>API_DOCUMENTATION_ROUTE\<close> defaulted by \<open>??\<close>.
  \<open>src/index.js\<close>: the Express application, its port \<open>process.env.PORT || 3000\<close> and its
  middleware stack in order: \<open>cors()\<close>, the JSON and URL-encoded body parsers, the static
  files under \<open>/images\<close>, and the main router. The environment is a map from variable
  names to strings (\<open>process.env.X\<close> is a string or \<open>undefined\<close>). A request to the
  application is its method, its path segments, its \<open>Content-Type\<close> and whether it has
  a body; the body parsers are modelled by which of them reads the body.
\<close>

section \<open>Environment\<close>

definition process_env :: "(string \<rightharpoonup> string) \<Rightarrow> string \<Rightarrow> jsval" where
  "process_env env k = (case env k of None \<Rightarrow> JUndefined | Some v \<Rightarrow> JStr v)"

text \<open>
  \<open>require('dotenv').config()\<close>, the first line of \<open>src/index.js\<close>: the variables of the
  \<open>.env\<close> file (none when it is missing) are added to \<open>process.env\<close>, a variable that is
  already set keeping its value.
\<close>

definition dotenv_config :: "(string \<rightharpoonup> string) \<Rightarrow> (string \<rightharpoonup> string) \<Rightarrow> (string \<rightharpoonup> string)" where
  "dotenv_config file env = file ++ env"

section \<open>The API controller\<close>

text \<open>\<open>request.get('host')\<close>: the \<open>Host\<close> header, \<open>undefined\<close> when absent.\<close>

definition getHome :: "string \<Rightarrow> string option \<Rightarrow> (string \<rightharpoonup> string) \<Rightarrow> jsobj" where
  "getHome protocol host env =
     (let fullURL = protocol @ ''://'' @
                    js_template (case host of None \<Rightarrow> JUndefined | Some h \<Rightarrow> JStr h) @
                    js_template (js_nullish (process_env env ''API_DOCUMENTATION_ROUTE'') (JStr ''/api-docs''))
      in [''documentation_url'' \<mapsto> JStr fullURL])"

section \<open>The application\<close>

definition port :: "(string \<rightharpoonup> string) \<Rightarrow> jsval" where
  "port env = js_or (process_env env ''PORT'') (JNum 3000)"

datatype layer = Cors | JsonParser | UrlencodedParser | StaticFiles string | MainRouter

definition app_stack :: "layer list" where
  "app_stack = [Cors, JsonParser, UrlencodedParser, StaticFiles ''images'', MainRouter]"

record app_request =
  areq_method :: http_method
  areq_path :: "string list"
  areq_ctype :: string
  areq_has_body :: bool

text \<open>
  \<open>type-is\<close>, which the body parsers use: the media type of a \<open>Content-Type\<close> header is
  the part before its parameters (\<open>;\<close>), without surrounding blanks, compared ignoring the
  case of ASCII letters.
\<close>

definition is_ws :: "char \<Rightarrow> bool" where
  "is_ws c = (c = CHR '' '' \<or> c = CHR 0x09)"

definition trim_ws :: "string \<Rightarrow> string" where
  "trim_ws s = rev (dropWhile is_ws (rev (dropWhile is_ws s)))"

definition media_type_is :: "string \<Rightarrow> string \<Rightarrow> bool" where
  "media_type_is ct m = seg_eq (trim_ws (takeWhile (\<lambda>c. c \<noteq> CHR '';'') ct)) m"

record app_state =
  cors_header :: bool
  body_parsed_by :: "layer option"

datatype app_result = ServedFile "string list" | ToRouter app_state | Unhandled

text \<open>
  One pass through the stack. \<open>cors()\<close> sets \<open>Access-Control-Allow-Origin: *\<close>; a body
  parser reads the body when the request has one, its media type is the parser's own and no
  parser read it yet; \<open>express.static\<close> mounted at \<open>/images\<close> (a mount path Express
  matches ignoring case) answers a \<open>GET\<close> for an existing file of the directory (the list
  \<open>files\<close> of its relative paths) and passes anything else on.
\<close>

fun run_app :: "string list list \<Rightarrow> layer list \<Rightarrow> app_request \<Rightarrow> app_state \<Rightarrow> app_result" where
  "run_app files [] rq st = Unhandled"
| "run_app files (Cors # ls) rq st = run_app files ls rq (st\<lparr>cors_header := True\<rparr>)"
| "run_app files (JsonParser # ls) rq st =
     run_app files ls rq (if areq_has_body rq \<and> media_type_is (areq_ctype rq) ''application/json'' \<and> body_parsed_by st = None
                          then st\<lparr>body_parsed_by := Some JsonParser\<rparr> else st)"
| "run_app files (UrlencodedParser # ls) rq st =
     run_app files ls rq (if areq_has_body rq \<and> media_type_is (areq_ctype rq) ''application/x-www-form-urlencoded''
                             \<and> body_parsed_by st = None
                          then st\<lparr>body_parsed_by := Some UrlencodedParser\<rparr> else st)"
| "run_app files (StaticFiles dir # ls) rq st =
     (case areq_path rq of
        p # rest \<Rightarrow>
          if seg_eq p dir \<and> areq_method rq = GET \<and> rest \<in> set files then ServedFile rest
          else run_app files ls rq st
      | [] \<Rightarrow> run_app files ls rq st)"
| "run_app files (MainRouter # ls) rq st = ToRouter st"

definition handle_app :: "string list list \<Rightarrow> app_request \<Rightarrow> app_result" where
  "handle_app files rq = run_app files app_stack rq \<lparr>cors_header = False, body_parsed_by = None\<rparr>"

text \<open>
  \<open>app.listen(port, () => debug(`Server ready: http://localhost:${port}`))\<close>: the
  message logged once the server listens.
\<close>

definition ready_message :: "(string \<rightharpoonup> string) \<Rightarrow> string" where
  "ready_message env = ''Server ready: http://localhost:'' @ js_template (port env)"

section \<open>Lemmas\<close>

lemma decimal_int_3000: "decimal_int 3000 = ''3000''"
  by (simp add: decimal_int_def decimal_nat_big decimal_nat_small char_of_digit del: decimal_nat.simps)

section \<open>Properties\<close>

text \<open>
  C23. \<open>getHome\<close> answers \<open>documentation_url\<close> = protocol, \<open>://\<close>, the \<open>Host\<close> header
  (the text \<open>undefined\<close> when the header is absent), then \<open>API_DOCUMENTATION_ROUTE\<close> when
  it is set, even to the empty string, and \<open>/api-docs\<close> when it is not.
\<close>

lemma getHome_url:
  "getHome protocol host env ''documentation_url'' =
     Some (JStr (protocol @ ''://'' @ (case host of None \<Rightarrow> ''undefined'' | Some h \<Rightarrow> h) @
                 (case env ''API_DOCUMENTATION_ROUTE'' of None \<Rightarrow> ''/api-docs'' | Some r \<Rightarrow> r)))"
  by (simp add: getHome_def process_env_def split: option.splits)

text \<open>
  C24. The port is \<open>PORT\<close> when it is set to a non-empty string, and 3000 when it is
  unset or empty (\<open>||\<close>, unlike the \<open>??\<close> of \<open>getHome\<close>); the message \<open>app.listen\<close>
  logs names that same port. After \<open>dotenv\<close> has loaded the \<open>.env\<close> file, a \<open>PORT\<close> set
  in the process environment, even to the empty string, wins over the file's.
\<close>

lemma port_default:
  "port env = (case env ''PORT'' of None \<Rightarrow> JNum 3000 | Some p \<Rightarrow> if p = [] then JNum 3000 else JStr p)
   \<and> ready_message env = ''Server ready: http://localhost:'' @
       (case env ''PORT'' of None \<Rightarrow> ''3000'' | Some p \<Rightarrow> if p = [] then ''3000'' else p)
   \<and> port (dotenv_config file env) = (case env ''PORT'' of None \<Rightarrow> port file | Some p \<Rightarrow> port env)"
  by (simp add: port_def ready_message_def process_env_def dotenv_config_def map_add_def decimal_int_3000
      split: option.splits)

text \<open>
  C25. A \<open>GET\<close> for an existing file under \<open>/images\<close> is answered by the static
  middleware and never reaches the router (so it passes no authentication).
\<close>

lemma handle_app_static:
  assumes "areq_method rq = GET" and "areq_path rq = ''images'' # rest" and "rest \<in> set files"
  shows "handle_app files rq = ServedFile rest"
  using assms by (simp add: handle_app_def app_stack_def)

lemma handle_app_static_witness:
  "handle_app [[''parcel.png'']] \<lparr>areq_method = GET, areq_path = [''images'', ''parcel.png''], areq_ctype = [],
     areq_has_body = False\<rparr>
     = ServedFile [''parcel.png'']"
  by (rule handle_app_static) simp_all

text \<open>
  C26. A request that reaches the router carries the CORS header, has had its body read by
  the parser of its media type when it has a body (JSON first, then URL-encoded, otherwise
  none; \<open>Content-Type\<close> parameters such as \<open>charset\<close> and letter case ignored), and is not a
  \<open>GET\<close> for an existing image.
\<close>

lemma handle_app_router:
  assumes "handle_app files rq = ToRouter st"
  shows "cors_header st \<and>
         body_parsed_by st = (if areq_has_body rq \<and> media_type_is (areq_ctype rq) ''application/json'' then Some JsonParser
                              else if areq_has_body rq \<and> media_type_is (areq_ctype rq) ''application/x-www-form-urlencoded''
                              then Some UrlencodedParser else None)
         \<and> \<not> (areq_method rq = GET \<and> (\<exists>p rest. areq_path rq = p # rest \<and> seg_eq p ''images'' \<and> rest \<in> set files))"
  using assms by (auto simp: handle_app_def app_stack_def split: list.splits if_splits)

lemma handle_app_router_witness:
  "cors_header \<lparr>cors_header = True, body_parsed_by = Some JsonParser\<rparr>
   \<and> handle_app [] \<lparr>areq_method = POST, areq_path = [''users'', ''login''], areq_ctype = ''application/json; charset=utf-8'',
       areq_has_body = True\<rparr>
     = ToRouter \<lparr>cors_header = True, body_parsed_by = Some JsonParser\<rparr>"
proof -
  have h: "handle_app [] \<lparr>areq_method = POST, areq_path = [''users'', ''login''], areq_ctype = ''application/json; charset=utf-8'',
       areq_has_body = True\<rparr>
     = ToRouter \<lparr>cors_header = True, body_parsed_by = Some JsonParser\<rparr>"
    by (simp add: handle_app_def app_stack_def media_type_is_def trim_ws_def is_ws_def)
  from handle_app_router [OF h] h show ?thesis by simp
qed

end
