(* ===== verification/Spec2Isabelle.thy ===== *)
theory Spec2Isabelle
  imports Lifecycle UserRoutes App
begin

text \<open>
  \<^bold>\<open>A verification model of the Colis-and-Co users API.\<close>

  The repository is an Express backend for a parcel-delivery service. Its sources are four
  JavaScript files: \<open>src/index.js\<close> (the application and its middleware stack),
  \<open>src/app/controllers/api/index.js\<close> (the root discovery handler \<open>getHome\<close>),
  \<open>src/back/app/routers/api/users.js\<close> (the users router: ten routes with their
  middleware chains) and \<open>src/app/models/accountDataMapper.js\<close> (the account data
  mapper: \<open>findAccountByUserId\<close> and \<open>updateAccount\<close> over a \<open>pg\<close> client). The
  modules these files require but which are not in the repository (the \<open>authJwt\<close>
  middleware, the users controller, \<open>controllerHandler\<close>, \<open>CoreDataMapper\<close>, the user
  and carrier mappers) are modelled from the spec, over the same state.

  A request flows: application stack (\<open>App\<close>) \<open>\<rightarrow>\<close> users router dispatch
  (\<open>Router\<close>) \<open>\<rightarrow>\<close> the route's chain: \<open>authenticationJwt\<close> (\<open>Identity\<close>),
  \<open>validate\<close> (an external verdict), \<open>controllerHandler\<close> around a controller method
  (\<open>Controller\<close>), which consults the ownership guard (\<open>Guard\<close>) and calls a data mapper
  (\<open>AccountMapper\<close>, \<open>SpecMappers\<close>), which issues SQL statements (\<open>Sql\<close>).

  \<^bold>\<open>Theories.\<close>
  \<^item> \<open>Prelude\<close>: JavaScript values \<open>jsval\<close>, plain objects as maps (\<open>js_get\<close> reads a
    missing property as \<open>undefined\<close>), \<open>||\<close> and \<open>??\<close>, \<open>rows[0]\<close> (\<open>js_first\<close>, and
    \<open>js_index0\<close> into the result type \<open>js_result\<close>, which keeps \<open>null\<close>,
    \<open>undefined\<close> and an object apart), \<open>sbind\<close>, the sequencing of a computation that
    may throw (\<open>Inl\<close> the error), and template literals (\<open>js_template\<close>: \<open>String(v)\<close>,
    decimal digits for numbers).
  \<^item> \<open>Sql\<close>: the database as a map from table names to tables (columns and rows in
    storage order) and the statement shapes the mappers send: \<open>select_where\<close>,
    \<open>update_where\<close> (\<open>UPDATE \<dots> SET \<dots> WHERE \<dots> RETURNING *\<close>), \<open>select_all\<close>,
    \<open>delete_where\<close>, \<open>insert_row\<close>; SQL \<open>NULL\<close> never equals anything and \<open>pg\<close> sends
    \<open>undefined\<close> as \<open>NULL\<close> (\<open>sql_param\<close>). Invariants \<open>wf_table\<close> and \<open>unique_col\<close>
    with their preservation lemmas, and the refinement of the keyed statements by a map
    from key to row (\<open>key_map\<close>). The equality of \<open>WHERE c = $1\<close> (\<open>hits\<close>) is
    structural on values: PostgreSQL would cast a text parameter to the column's type
    (\<open>'1'\<close> equal to \<open>1\<close>, \<open>'abc'\<close> an error on an integer column); every parameter the
    modelled code sends has the column's type (ids are numbers, e-mails strings), where the
    two agree.
  \<^item> \<open>AccountMapper\<close>: \<open>accountDataMapper.js\<close> line by line: \<open>account_tableName\<close>,
    \<open>findAccountByUserId\<close> (lines 14-25: the explicit \<open>null\<close> of line 22 is
    \<open>JsNull\<close>, \<open>rows[0]\<close> is \<open>js_index0\<close>), \<open>updateAccount\<close> (lines 27-33: the
    thrown not-found error as \<open>AccountNotFound\<close>; the call \<open>account.updateFromData\<close> on
    the plain row throws \<open>TypeError\<close>, so lines 34-49 are unreachable and not part of the
    model). Properties C1-C6.
  \<^item> \<open>Router\<close>: \<open>users.js\<close>: the route records of the ten registrations in order
    (\<open>users_router\<close>), Express path matching with the options \<open>express.Router()\<close>
    defaults to (\<open>match_path\<close>: literals compared ignoring the case of ASCII letters, a
    trailing slash allowed, a \<open>:param\<close> binds one non-empty segment) and first-match
    dispatch (\<open>dispatch\<close>). Properties C7-C11, each about the ten registrations.
  \<^item> \<open>Identity\<close>, \<open>Guard\<close>: the \<open>authJwt\<close> resolver and token issuance (signature
    checked by a signer passed as a parameter), and the ownership guard (owner or admin).
  \<^item> \<open>SpecMappers\<close>: \<open>CoreDataMapper\<close> (\<open>findByPk\<close>, \<open>findAll\<close>, \<open>deleteByPk\<close>: a soft
    delete setting the column \<open>active\<close> to false, spec 3), the user mapper
    (\<open>createSecureUser\<close>, whose new row takes the id the database assigns, a parameter;
    \<open>authenticate\<close>) and the carrier mapper, with the registration lemmas (duplicate
    e-mail, hashed password, e-mail uniqueness kept); and the object
    \<open>accountDataMapper.js\<close> exports (\<open>accountDataMapper\<close>, lines 6-12 and 53), whose
    inherited \<open>CoreDataMapper\<close> methods work on the table \<open>users\<close>.
  \<^item> \<open>Controller\<close>: the controller methods the router binds (\<open>run_handler\<close>, one equation
    per method; \<open>:id\<close> routes go through \<open>guarded\<close>: identity, the id read from
    \<open>req.params.id\<close> as a decimal, guard) and \<open>controllerHandler\<close>, which maps a result or
    a thrown error (a storage error, the \<open>TypeError\<close>) to the response outcome.
  \<^item> \<open>Pipeline\<close>: \<open>run_chain\<close> runs a route's middleware chain as Express does,
    \<open>handle_users\<close> is a request to the users router; the same execution as the inductive
    stage machine \<open>pstep\<close> of the spec's request state machine (\<open>run_chain_iff_pstep\<close>).
    Properties C12-C16 (authentication, ownership, validation order, registration through
    the router).
  \<^item> \<open>Lifecycle\<close>: the life cycle of a request on \<open>pstep\<close>: termination and liveness of
    the stage machine for any chain (lemmas), the shape of every route's chain
    (\<open>wf_chain\<close>) and, from it, that no dispatched request falls through. C21-C22.
  \<^item> \<open>UserRoutes\<close>: the account, profile and carrier routes end to end, from dispatch to
    the database: carrier lookup, the two account-mapper defects as the responses a client
    gets (HTTP 500 on the documented schema, HTTP 500 for every update of an existing
    account), and soft deletion through both \<open>DELETE\<close> routes. C17-C20.
  \<^item> \<open>App\<close>: \<open>getHome\<close>'s template literal, the environment as \<open>dotenv\<close> completes it,
    the port default and the application's stack (\<open>run_app\<close>: \<open>cors()\<close>, the body
    parsers, \<open>express.static\<close> at \<open>/images\<close>, the router), and the message
    \<open>app.listen\<close> logs. Properties C23-C26.

  \<^bold>\<open>What the properties show.\<close> Functional behaviour of both account mapper methods on
  every branch (found, not found, \<open>NULL\<close> key, missing column), with two defects proved as
  theorems: \<open>updateAccount\<close> never returns normally, throwing a \<open>TypeError\<close> whenever the
  account exists (C1), and on the schema the \<open>User\<close> typedef documents the mapper's
  queries fail (C5). The router authenticates every \<open>:id\<close> route (C7), leaves exactly
  \<open>GET /\<close>, \<open>POST /login\<close> and \<open>POST /register\<close> public (C8), sends every one-segment
  \<open>GET\<close>, \<open>/users/login\<close> included, to \<open>GET /:id\<close> (C9), shadows none of its routes
  (C10), binds \<open>DELETE /:id/carrier\<close> to the account deletion (C11), and validation answers
  before the guard (C14). Through the pipeline: unauthenticated requests change nothing
  (C12), every change on an \<open>:id\<close> route was authorized for that id (C13), registration
  rejects duplicates and stores only a password hash (C15, C16); clients see HTTP 500 for
  the documented schema (C18) and for every account update (C19); deleting through either
  \<open>DELETE\<close> route marks the user inactive and removes no carrier profile (C20); every
  dispatched chain ends in one controller (C21, C22).

  \<^bold>\<open>Loops and bounds.\<close> Every function is total: the chain, the route list, path
  segments and rows are walked by structural recursion, \<open>decimal_nat\<close> recurses on
  \<open>n div 10\<close>, so no fuel is needed; the request stage machine is proved terminating
  (\<open>pstep_terminates\<close>); integers are unbounded (JavaScript numbers used as ids are small
  integers) and no claim depends on overflow.

  \<^bold>\<open>Not modelled.\<close> Request-body validation (its verdict is the parameter
  \<open>cfg_valid\<close>), the cryptography of JWTs and password hashing (parameters), the id
  sequence of the database (the parameter \<open>cfg_serial\<close>), the contents of static files (a
  list of paths) and \<open>HEAD\<close> requests for them, the contents of request bodies (a body
  parser's syntax and charset errors, answered 400 or 415, are not represented; which parser
  reads a body is), opening the socket in \<open>app.listen\<close> and the \<open>debug\<close> calls other than
  the ready message, the \<open>require\<close> lines other than \<open>dotenv\<close>'s, the percent-decoding of
  route parameters (a parameter is passed as its raw segment, which agrees with Express for
  paths without escapes), PostgreSQL's casting of parameters (see \<open>Sql\<close>), and concurrent
  requests. The controller is not in the repository: how it reads \<open>req.params.id\<close>
  (\<open>parse_id\<close>, decimal digits) and which mapper each method calls follow the spec and the
  method names the router binds. A \<open>SELECT\<close> without \<open>ORDER BY\<close> returns rows in an
  order PostgreSQL does not fix; the model returns them in storage order, which matters only
  when a key is not unique (then \<open>rows[0]\<close> is one arbitrary match).
\<close>

end
